theory Spec2Isabelle
  imports Complex_Main "HOL-Library.Multiset" "HOL-Library.List_Lexorder" "HOL-Library.Char_ord"
begin

section \<open>Python exceptions\<close>

text \<open>
  The exceptions the engine can raise, as values. A fallible operation returns
  \<open>py_error + 'a\<close>, with \<open>Inl\<close> for the exception.
\<close>

datatype py_error =
    IndexError
  | ValueError string
  | AttributeError string

section \<open>rate\_limiter.py\<close>

subsection \<open>RateLimiter\<close>

text \<open>
  \<^verbatim>\<open>class RateLimiter\<close>. The two deques hold the timestamps of the granted requests,
  oldest first. Timestamps are the readings of \<^verbatim>\<open>time.time()\<close>; Python holds them as
  floats, the model as reals (the operations used are subtraction, comparison and
  \<open>max\<close>). The lock is not modelled: every method body runs under it, so a call is one
  atomic transition of the record.
\<close>

record rate_limiter =
  requests_per_hour :: int
  requests_per_minute :: int
  hour_window :: "real list"
  minute_window :: "real list"
  total_requests :: int
  total_throttled :: int

text \<open>
  \<^verbatim>\<open>RateLimiter.__init__\<close> stores its two arguments and starts with empty windows and
  zero counters. Its body has no \<^verbatim>\<open>raise\<close>: the result is an instance for all
  arguments. The result type is a sum only so that "the constructor raises" can be
  stated about it.
\<close>

definition RateLimiter_init :: "int \<Rightarrow> int \<Rightarrow> py_error + rate_limiter" where
  "RateLimiter_init rph rpm =
     Inr \<lparr> requests_per_hour = rph, requests_per_minute = rpm,
           hour_window = [], minute_window = [],
           total_requests = 0, total_throttled = 0 \<rparr>"

text \<open>
  \<^verbatim>\<open>_clean_window\<close>: pops from the left while the head is older than \<open>max_age\<close>.
  The method samples the clock itself; \<open>current_time\<close> is that sample.
\<close>

definition clean_window :: "real \<Rightarrow> real list \<Rightarrow> real \<Rightarrow> real list" where
  "clean_window current_time window max_age =
     dropWhile (\<lambda>t. current_time - t > max_age) window"

text \<open>
  \<^verbatim>\<open>wait_if_needed\<close> (the spec's \<open>acquire\<close>). The call reads the clock four times, in
  this order: \<open>now\<close> on entry, \<open>now_h\<close> inside the cleaning of the hour window,
  \<open>now_m\<close> inside the cleaning of the minute window, and \<open>now_s\<close> after the sleep (read
  only when the call slept). The result is the value returned, the argument of
  \<^verbatim>\<open>time.sleep\<close> when it was called (\<open>None\<close> when it was not) and the limiter after the
  call. \<^verbatim>\<open>window[0]\<close> on an empty deque raises \<^verbatim>\<open>IndexError\<close>; that can only happen with a
  limit that is not positive.
\<close>

definition wait_if_needed ::
  "real \<Rightarrow> real \<Rightarrow> real \<Rightarrow> real \<Rightarrow> rate_limiter \<Rightarrow> py_error + (real \<times> real option \<times> rate_limiter)"
where
  "wait_if_needed now now_h now_m now_s rl =
    (let current_time = now;
         hw = clean_window now_h (hour_window rl) 3600;
         mw = clean_window now_m (minute_window rl) 60;
         wait_time = 0
     in
     if int (length mw) \<ge> requests_per_minute rl \<and> mw = [] then Inl IndexError
     else
     let wait_time =
           (if int (length mw) \<ge> requests_per_minute rl
            then max wait_time (60 - (current_time - hd mw)) else wait_time)
     in
     if int (length hw) \<ge> requests_per_hour rl \<and> hw = [] then Inl IndexError
     else
     let wait_time =
           (if int (length hw) \<ge> requests_per_hour rl
            then max wait_time (3600 - (current_time - hd hw)) else wait_time);
         throttled = (if wait_time > 0 then total_throttled rl + 1 else total_throttled rl);
         slept = (if wait_time > 0 then Some wait_time else None);
         current_time = (if wait_time > 0 then now_s else current_time)
     in
     Inr (wait_time, slept,
          rl \<lparr> hour_window := hw @ [current_time],
               minute_window := mw @ [current_time],
               total_requests := total_requests rl + 1,
               total_throttled := throttled \<rparr>))"

text \<open>\<^verbatim>\<open>get_stats\<close> and \<^verbatim>\<open>reset\<close>.\<close>

record rate_limiter_stats =
  st_total_requests :: int
  st_total_throttled :: int
  current_hour_count :: int
  current_minute_count :: int
  requests_per_hour_limit :: int
  requests_per_minute_limit :: int

definition rl_get_stats :: "rate_limiter \<Rightarrow> rate_limiter_stats" where
  "rl_get_stats rl =
     \<lparr> st_total_requests = total_requests rl,
       st_total_throttled = total_throttled rl,
       current_hour_count = int (length (hour_window rl)),
       current_minute_count = int (length (minute_window rl)),
       requests_per_hour_limit = requests_per_hour rl,
       requests_per_minute_limit = requests_per_minute rl \<rparr>"

definition rl_reset :: "rate_limiter \<Rightarrow> rate_limiter" where
  "rl_reset rl =
     rl \<lparr> hour_window := [], minute_window := [],
          total_requests := 0, total_throttled := 0 \<rparr>"

subsection \<open>RateLimiterManager\<close>

text \<open>
  The managers hand out references to mutable objects, and a claim is about which
  object a call returns. Objects therefore live in a store, a list indexed by
  reference: allocation appends, so the reference of a new object is the length of the
  store before the allocation and differs from every reference handed out earlier.
\<close>

type_synonym ref = nat

record rate_limiter_manager =
  limiters :: "string \<rightharpoonup> ref"

definition RateLimiterManager_init :: rate_limiter_manager where
  "RateLimiterManager_init = \<lparr> limiters = Map.empty \<rparr>"

text \<open>
  \<^verbatim>\<open>RateLimiterManager.get_or_create\<close>: the state is the manager and the store of
  rate limiters; the result is the reference returned and the state after the call.
\<close>

definition get_or_create ::
  "string \<Rightarrow> int \<Rightarrow> int \<Rightarrow> rate_limiter_manager \<times> rate_limiter list
     \<Rightarrow> py_error + (ref \<times> rate_limiter_manager \<times> rate_limiter list)"
where
  "get_or_create nm rph rpm st =
    (case st of (m, store) \<Rightarrow>
      (case limiters m nm of
         None \<Rightarrow>
           (case RateLimiter_init rph rpm of
              Inl e \<Rightarrow> Inl e
            | Inr rl \<Rightarrow>
                Inr (length store,
                     m \<lparr> limiters := (limiters m)(nm \<mapsto> length store) \<rparr>,
                     store @ [rl]))
       | Some r \<Rightarrow> Inr (r, m, store)))"

section \<open>data\_tracker.py\<close>

subsection \<open>The table of the durable tracker\<close>

text \<open>
  The table \<^verbatim>\<open>ingested_items\<close>: one record per row, in insertion order, and the last
  value of the \<^verbatim>\<open>AUTOINCREMENT\<close> key. The schema declares
  \<^verbatim>\<open>UNIQUE(tracker_name, item_id)\<close>; an \<^verbatim>\<open>INSERT\<close> that would break it raises
  \<^verbatim>\<open>sqlite3.IntegrityError\<close> and leaves the table as it was. The table exists from the
  construction of the tracker on (\<^verbatim>\<open>CREATE TABLE IF NOT EXISTS\<close> in \<^verbatim>\<open>_init_db\<close>), so the
  methods are functions of its content. Failures of the storage itself (an unreadable
  file, a locked database) are outside the model.
\<close>

record row =
  row_id :: int
  tracker_name :: string
  item_id :: string
  item_hash :: "string option"
  ingested_at :: string
  metadata_json :: "string option"

record table =
  rows :: "row list"
  last_row_id :: int

definition empty_table :: table where
  "empty_table = \<lparr> rows = [], last_row_id = 0 \<rparr>"

datatype sql_error = IntegrityError

definition sql_insert ::
  "string \<Rightarrow> string \<Rightarrow> string option \<Rightarrow> string \<Rightarrow> string option \<Rightarrow> table \<Rightarrow> sql_error + table"
where
  "sql_insert tn iid h ts md tb =
     (if \<exists>r \<in> set (rows tb). tracker_name r = tn \<and> item_id r = iid
      then Inl IntegrityError
      else Inr \<lparr> rows = rows tb @
                   [\<lparr> row_id = last_row_id tb + 1, tracker_name = tn, item_id = iid,
                      item_hash = h, ingested_at = ts, metadata_json = md \<rparr>],
                 last_row_id = last_row_id tb + 1 \<rparr>)"

definition sql_update :: "string option \<Rightarrow> string \<Rightarrow> string \<Rightarrow> string \<Rightarrow> table \<Rightarrow> table" where
  "sql_update md ts tn iid tb =
     tb \<lparr> rows :=
            map (\<lambda>r. if tracker_name r = tn \<and> item_id r = iid
                      then r \<lparr> metadata_json := md, ingested_at := ts \<rparr> else r)
                (rows tb) \<rparr>"

definition sql_delete :: "string \<Rightarrow> table \<Rightarrow> table" where
  "sql_delete tn tb = tb \<lparr> rows := filter (\<lambda>r. tracker_name r \<noteq> tn) (rows tb) \<rparr>"

definition sql_count :: "(row \<Rightarrow> bool) \<Rightarrow> table \<Rightarrow> int" where
  "sql_count P tb = int (length (filter P (rows tb)))"

text \<open>\<^verbatim>\<open>MIN\<close> and \<^verbatim>\<open>MAX\<close> of a text column: \<^verbatim>\<open>NULL\<close> over no rows.\<close>

definition sql_min :: "string list \<Rightarrow> string option" where
  "sql_min xs = (case xs of [] \<Rightarrow> None | x # ys \<Rightarrow> Some (fold min ys x))"

definition sql_max :: "string list \<Rightarrow> string option" where
  "sql_max xs = (case xs of [] \<Rightarrow> None | x # ys \<Rightarrow> Some (fold max ys x))"

text \<open>\<^verbatim>\<open>_init_db\<close> on the databases by path: \<^verbatim>\<open>CREATE TABLE IF NOT EXISTS\<close>.\<close>

definition init_db :: "string \<Rightarrow> (string \<rightharpoonup> table) \<Rightarrow> (string \<rightharpoonup> table)" where
  "init_db path dbs = (case dbs path of None \<Rightarrow> dbs(path \<mapsto> empty_table) | Some _ \<Rightarrow> dbs)"

subsection \<open>DataTracker and its two variants\<close>

text \<open>
  A metadata dict is a list of key/value pairs; Python's test \<^verbatim>\<open>if metadata\<close> is true for
  a dict that is not empty. The values are those \<^verbatim>\<open>json.dumps\<close> accepts, so the encoder
  is a total function; it and the SHA-256 digest are taken from the runtime.
\<close>

type_synonym 'v py_dict = "(string \<times> 'v) list"

record 'v runtime =
  json_dumps :: "'v py_dict \<Rightarrow> string"
  sha256_hexdigest :: "string \<Rightarrow> string"

definition truthy :: "'v py_dict option \<Rightarrow> bool" where
  "truthy md = (case md of None \<Rightarrow> False | Some d \<Rightarrow> d \<noteq> [])"

text \<open>
  The class hierarchy as a datatype: the durable variant holds its name and the path
  of its database, the volatile one its name, the set of ids and the metadata by id.
\<close>

datatype 'v data_tracker =
    SQLiteDataTracker (name: string) (db_path: string)
  | InMemoryDataTracker (name: string) (items: "string set") (metadata: "string \<rightharpoonup> 'v py_dict")

definition InMemoryDataTracker_init :: "string \<Rightarrow> 'v data_tracker" where
  "InMemoryDataTracker_init nm = InMemoryDataTracker nm {} Map.empty"

definition SQLiteDataTracker_init ::
  "string \<Rightarrow> string \<Rightarrow> (string \<rightharpoonup> table) \<Rightarrow> 'v data_tracker \<times> (string \<rightharpoonup> table)" where
  "SQLiteDataTracker_init nm path dbs = (SQLiteDataTracker nm path, init_db path dbs)"

text \<open>
  The four methods of the interface. The state of a tracker is the object and, for the
  durable variant, the table of its database; the volatile variant leaves the table
  alone. \<open>ts\<close> is the timestamp \<^verbatim>\<open>add_item\<close> reads from the clock.
\<close>

definition has_item :: "'v data_tracker \<times> table \<Rightarrow> string \<Rightarrow> bool" where
  "has_item st iid =
    (case st of
       (SQLiteDataTracker nm path, tb) \<Rightarrow>
          sql_count (\<lambda>r. tracker_name r = nm \<and> item_id r = iid) tb > 0
     | (InMemoryDataTracker nm its md, tb) \<Rightarrow> iid \<in> its)"

definition add_item ::
  "'v runtime \<Rightarrow> string \<Rightarrow> string \<Rightarrow> 'v py_dict option \<Rightarrow> 'v data_tracker \<times> table
     \<Rightarrow> 'v data_tracker \<times> table"
where
  "add_item rt ts iid mdata st =
    (case st of
       (SQLiteDataTracker nm path, tb) \<Rightarrow>
         (let item_hash = sha256_hexdigest rt iid;
              metadata_json = (if truthy mdata then map_option (json_dumps rt) mdata else None)
          in case sql_insert nm iid (Some item_hash) ts metadata_json tb of
               Inr tb' \<Rightarrow> (SQLiteDataTracker nm path, tb')
             | Inl IntegrityError \<Rightarrow>
                 (SQLiteDataTracker nm path, sql_update metadata_json ts nm iid tb))
     | (InMemoryDataTracker nm its md, tb) \<Rightarrow>
         (InMemoryDataTracker nm (insert iid its)
            (if truthy mdata then md(iid \<mapsto> the mdata) else md), tb))"

record tracker_stats =
  st_tracker_name :: string
  total_items :: int
  first_item_at :: "string option"
  last_item_at :: "string option"
  has_metadata :: "int option"

text \<open>
  \<^verbatim>\<open>get_stats\<close> returns a dict with the keys \<^verbatim>\<open>tracker_name\<close> and \<^verbatim>\<open>total_items\<close> in both
  variants; \<^verbatim>\<open>first_item_at\<close> and \<^verbatim>\<open>last_item_at\<close> are keys of the durable variant only
  (\<open>None\<close> is SQL's \<^verbatim>\<open>NULL\<close>), \<^verbatim>\<open>has_metadata\<close> of the volatile one only (\<open>None\<close>: the key
  is absent).
\<close>

definition get_stats :: "'v data_tracker \<times> table \<Rightarrow> tracker_stats" where
  "get_stats st =
    (case st of
       (SQLiteDataTracker nm path, tb) \<Rightarrow>
         (let mine = filter (\<lambda>r. tracker_name r = nm) (rows tb) in
          \<lparr> st_tracker_name = nm,
            total_items = sql_count (\<lambda>r. tracker_name r = nm) tb,
            first_item_at = sql_min (map ingested_at mine),
            last_item_at = sql_max (map ingested_at mine),
            has_metadata = None \<rparr>)
     | (InMemoryDataTracker nm its md, tb) \<Rightarrow>
          \<lparr> st_tracker_name = nm,
            total_items = int (card its),
            first_item_at = None,
            last_item_at = None,
            has_metadata = Some (int (card (dom md))) \<rparr>)"

definition clear :: "'v data_tracker \<times> table \<Rightarrow> 'v data_tracker \<times> table" where
  "clear st =
    (case st of
       (SQLiteDataTracker nm path, tb) \<Rightarrow> (SQLiteDataTracker nm path, sql_delete nm tb)
     | (InMemoryDataTracker nm its md, tb) \<Rightarrow> (InMemoryDataTracker nm {} Map.empty, tb))"

text \<open>
  A client's sequence of \<^verbatim>\<open>add_item\<close> calls, each with the timestamp it reads, its id and
  its metadata.
\<close>

record 'v add_call =
  call_ts :: string
  call_id :: string
  call_metadata :: "'v py_dict option"

definition add_items ::
  "'v runtime \<Rightarrow> 'v add_call list \<Rightarrow> 'v data_tracker \<times> table \<Rightarrow> 'v data_tracker \<times> table" where
  "add_items rt calls st =
     fold (\<lambda>c. add_item rt (call_ts c) (call_id c) (call_metadata c)) calls st"

subsection \<open>DataTrackerManager\<close>

record tracker_manager =
  storage_type :: string
  mgr_db_path :: string
  trackers :: "string \<rightharpoonup> ref"

definition DataTrackerManager_init :: "string \<Rightarrow> string \<Rightarrow> tracker_manager" where
  "DataTrackerManager_init stype path =
     \<lparr> storage_type = stype, mgr_db_path = path, trackers = Map.empty \<rparr>"

text \<open>
  \<^verbatim>\<open>DataTrackerManager.get_tracker\<close>: the state is the manager, the store of tracker
  objects and the databases by path.
\<close>

definition get_tracker ::
  "string \<Rightarrow> tracker_manager \<times> 'v data_tracker list \<times> (string \<rightharpoonup> table)
     \<Rightarrow> ref \<times> tracker_manager \<times> 'v data_tracker list \<times> (string \<rightharpoonup> table)"
where
  "get_tracker nm st =
    (case st of (m, store, dbs) \<Rightarrow>
      (case trackers m nm of
         None \<Rightarrow>
           (if storage_type m = ''sqlite''
            then (case SQLiteDataTracker_init nm (mgr_db_path m) dbs of
                    (t, dbs') \<Rightarrow>
                      (length store, m \<lparr> trackers := (trackers m)(nm \<mapsto> length store) \<rparr>,
                       store @ [t], dbs'))
            else (length store, m \<lparr> trackers := (trackers m)(nm \<mapsto> length store) \<rparr>,
                  store @ [InMemoryDataTracker_init nm], dbs))
       | Some r \<Rightarrow> (r, m, store, dbs)))"

section \<open>worker\_pool.py\<close>

subsection \<open>Task and TaskResult\<close>

text \<open>
  The two dataclasses. \<^verbatim>\<open>params\<close> and \<^verbatim>\<open>data\<close> are opaque to the pool: their types are
  parameters. \<open>Task\<close> is the constructor with the defaults of the dataclass; \<open>now\<close> is
  the reading of \<^verbatim>\<open>datetime.utcnow\<close> that fills \<^verbatim>\<open>created_at\<close>. The field \<^verbatim>\<open>task_id\<close> of
  \<^verbatim>\<open>TaskResult\<close> is \<open>r_task_id\<close> here, since the fields of the two records share one
  name space.
\<close>

record 'p task =
  task_id :: string
  task_type :: string
  params :: 'p
  priority :: int
  retry_count :: int
  max_retries :: int
  created_at :: real

record 'd task_result =
  r_task_id :: string
  success :: bool
  data :: "'d option"
  error :: "string option"
  execution_time :: real
  worker_id :: nat

definition Task :: "string \<Rightarrow> string \<Rightarrow> 'p \<Rightarrow> real \<Rightarrow> 'p task" where
  "Task tid ty ps now =
     \<lparr> task_id = tid, task_type = ty, params = ps, priority = 0,
       retry_count = 0, max_retries = 3, created_at = now \<rparr>"

subsection \<open>WorkerPool\<close>

text \<open>
  A handler is called with the params of a task. It may do anything to the world
  outside the pool (type \<open>'w\<close>) and either returns its data (\<open>Inr\<close>) or raises an
  exception, of which the pool reads \<^verbatim>\<open>str(e)\<close> (\<open>Inl\<close>).
\<close>

type_synonym ('p, 'd, 'w) handler = "'p \<Rightarrow> 'w \<Rightarrow> (string + 'd) \<times> 'w"

text \<open>
  The attributes of \<^verbatim>\<open>WorkerPool\<close>, the keys of its \<^verbatim>\<open>stats\<close> dict as fields, and what the
  run of the pool adds to them:
  \<^item> \<open>task_queue\<close> and \<open>unfinished_tasks\<close> are the \<^verbatim>\<open>queue.Queue\<close>: its content, oldest
    first, and its counter of items put and not yet marked done
    (\<^verbatim>\<open>put\<close> adds one, \<^verbatim>\<open>task_done\<close> takes one off, \<^verbatim>\<open>join\<close> waits for zero);
  \<^item> \<open>executor\<close> is the \<^verbatim>\<open>max_workers\<close> of the thread pool, \<open>None\<close> when there is none;
  \<^item> \<open>holding\<close> is, for a worker thread, the task it has taken off the queue and not yet
    finished, and \<open>worker_results\<close> the local list \<^verbatim>\<open>results\<close> of its \<^verbatim>\<open>_worker_loop\<close>;
  \<^item> \<open>world\<close> is the state the handlers act on.
\<close>

record ('p, 'd, 'w) worker_pool =
  num_workers :: int
  max_queue_size :: int
  task_queue :: "'p task list"
  unfinished_tasks :: int
  results :: "'d task_result list"
  executor :: "int option"
  total_tasks :: int
  completed_tasks :: int
  failed_tasks :: int
  retried_tasks :: int
  total_execution_time :: real
  is_running :: bool
  task_handlers :: "string \<rightharpoonup> ('p, 'd, 'w) handler"
  holding :: "nat \<rightharpoonup> 'p task"
  worker_results :: "nat \<Rightarrow> 'd task_result list"
  world :: 'w

text \<open>
  \<^verbatim>\<open>WorkerPool.__init__\<close>. Like the constructor of the rate limiter it has no \<^verbatim>\<open>raise\<close>;
  \<^verbatim>\<open>Queue(maxsize=n)\<close> accepts every integer (a size that is not positive means no
  bound). \<open>w\<close> is the world the handlers will find.
\<close>

definition WorkerPool_init :: "int \<Rightarrow> int \<Rightarrow> 'w \<Rightarrow> py_error + ('p, 'd, 'w) worker_pool" where
  "WorkerPool_init n qsize w =
     Inr \<lparr> num_workers = n, max_queue_size = qsize, task_queue = [], unfinished_tasks = 0,
           results = [], executor = None,
           total_tasks = 0, completed_tasks = 0, failed_tasks = 0, retried_tasks = 0,
           total_execution_time = 0,
           is_running = False, task_handlers = Map.empty,
           holding = Map.empty, worker_results = (\<lambda>_. []), world = w \<rparr>"

definition register_handler ::
  "string \<Rightarrow> ('p, 'd, 'w) handler \<Rightarrow> ('p, 'd, 'w) worker_pool \<Rightarrow> ('p, 'd, 'w) worker_pool" where
  "register_handler ty h s = s \<lparr> task_handlers := (task_handlers s)(ty \<mapsto> h) \<rparr>"

text \<open>
  \<^verbatim>\<open>Queue.put\<close> blocks while the queue is full. \<open>None\<close> is the call that blocks: nothing
  after it in the caller happens until a consumer takes an item.
\<close>

definition queue_full :: "('p, 'd, 'w) worker_pool \<Rightarrow> bool" where
  "queue_full s = (0 < max_queue_size s \<and> max_queue_size s \<le> int (length (task_queue s)))"

definition queue_put :: "'p task \<Rightarrow> ('p, 'd, 'w) worker_pool \<Rightarrow> ('p, 'd, 'w) worker_pool option" where
  "queue_put t s =
     (if queue_full s then None
      else Some (s \<lparr> task_queue := task_queue s @ [t],
                     unfinished_tasks := unfinished_tasks s + 1 \<rparr>))"

definition add_task :: "'p task \<Rightarrow> ('p, 'd, 'w) worker_pool \<Rightarrow> ('p, 'd, 'w) worker_pool option" where
  "add_task t s =
     (case queue_put t s of
        None \<Rightarrow> None
      | Some s' \<Rightarrow> Some (s' \<lparr> total_tasks := total_tasks s' + 1 \<rparr>))"

fun add_tasks :: "'p task list \<Rightarrow> ('p, 'd, 'w) worker_pool \<Rightarrow> ('p, 'd, 'w) worker_pool option" where
  "add_tasks [] s = Some s"
| "add_tasks (t # ts) s = (case add_task t s of None \<Rightarrow> None | Some s' \<Rightarrow> add_tasks ts s')"

text \<open>
  \<^verbatim>\<open>_execute_task\<close>: the result of one attempt and the world after it. \<open>elapsed\<close> is the
  difference of the two clock readings and \<open>tb\<close> the text of \<^verbatim>\<open>traceback.format_exc()\<close>,
  both supplied by the runtime. A missing handler raises \<^verbatim>\<open>ValueError\<close> inside the
  \<^verbatim>\<open>try\<close>, so it is caught by the same \<^verbatim>\<open>except Exception\<close> as an exception of a handler.
\<close>

definition execute_task ::
  "('p, 'd, 'w) worker_pool \<Rightarrow> 'p task \<Rightarrow> nat \<Rightarrow> real \<Rightarrow> string \<Rightarrow> 'd task_result \<times> 'w" where
  "execute_task s task wid elapsed tb =
     (case task_handlers s (task_type task) of
        None \<Rightarrow>
          (\<lparr> r_task_id = task_id task, success = False, data = None,
             error = Some (''No handler registered for task type: '' @ task_type task
                             @ [CHR 0x0A] @ tb),
             execution_time = elapsed, worker_id = wid \<rparr>, world s)
      | Some handler \<Rightarrow>
          (case handler (params task) (world s) of
             (Inr d, wld) \<Rightarrow>
               (\<lparr> r_task_id = task_id task, success = True, data = Some d, error = None,
                  execution_time = elapsed, worker_id = wid \<rparr>, wld)
           | (Inl msg, wld) \<Rightarrow>
               (\<lparr> r_task_id = task_id task, success = False, data = None,
                  error = Some (msg @ [CHR 0x0A] @ tb),
                  execution_time = elapsed, worker_id = wid \<rparr>, wld)))"

text \<open>
  One iteration of \<^verbatim>\<open>_worker_loop\<close> is two transitions of the pool, and the transitions
  of different workers interleave. The call of the handler is part of the second
  transition: what it does to the world happens at once, at the end of the attempt.
  A queue entry is a task value; Python puts the task object itself back for a retry,
  which is the same as long as no two entries are one object.

  \<open>worker_get w\<close>: worker \<open>w\<close>, at the top of its loop, takes the oldest task off the
  queue. Nothing happens when the pool is not running, when \<open>w\<close> is not one of the
  \<open>num_workers\<close> workers, when \<open>w\<close> is in the middle of an iteration, or when the queue
  is empty (\<^verbatim>\<open>Empty\<close> after the timeout, and the loop goes round).
\<close>

definition worker_get :: "nat \<Rightarrow> ('p, 'd, 'w) worker_pool \<Rightarrow> ('p, 'd, 'w) worker_pool" where
  "worker_get w s =
     (if \<not> is_running s \<or> num_workers s \<le> int w \<or> holding s w \<noteq> None then s
      else case task_queue s of
             [] \<Rightarrow> s
           | t # q \<Rightarrow> s \<lparr> task_queue := q, holding := (holding s)(w \<mapsto> t) \<rparr>)"

text \<open>
  \<open>worker_finish w\<close>: worker \<open>w\<close> runs the task it holds, appends the result to its
  list and, under the statistics lock, counts it and puts a failed task with retries
  left back at the end of the queue, with \<open>retry_count\<close> one higher; then it marks
  the task done. The \<^verbatim>\<open>put\<close> of the retry can block like any other (\<open>None\<close>): the worker
  then keeps the lock and the run does not complete.
\<close>

definition worker_finish ::
  "nat \<Rightarrow> real \<Rightarrow> string \<Rightarrow> ('p, 'd, 'w) worker_pool \<Rightarrow> ('p, 'd, 'w) worker_pool option" where
  "worker_finish w elapsed tb s =
     (case holding s w of
        None \<Rightarrow> Some s
      | Some task \<Rightarrow>
          (case execute_task s task w elapsed tb of
             (result, wld) \<Rightarrow>
               (let s1 = s \<lparr> world := wld,
                             worker_results := (worker_results s)(w := worker_results s w @ [result]) \<rparr>
                in case (if success result
                         then Some (s1 \<lparr> completed_tasks := completed_tasks s1 + 1 \<rparr>)
                         else let s2 = s1 \<lparr> failed_tasks := failed_tasks s1 + 1 \<rparr> in
                              if retry_count task < max_retries task
                              then (case queue_put (task \<lparr> retry_count := retry_count task + 1 \<rparr>) s2 of
                                      None \<Rightarrow> None
                                    | Some s3 \<Rightarrow> Some (s3 \<lparr> retried_tasks := retried_tasks s3 + 1 \<rparr>))
                              else Some s2) of
                     None \<Rightarrow> None
                   | Some s4 \<Rightarrow>
                       Some (s4 \<lparr> total_execution_time := total_execution_time s4 + execution_time result,
                                   unfinished_tasks := unfinished_tasks s4 - 1,
                                   holding := (holding s4)(w := None) \<rparr>))))"

text \<open>
  A schedule is the list of the transitions the workers make, in the order in which
  they happen; \<open>Finish\<close> carries what the runtime supplies to the attempt.
\<close>

datatype event = Get nat | Finish nat real string

fun step :: "event \<Rightarrow> ('p, 'd, 'w) worker_pool \<Rightarrow> ('p, 'd, 'w) worker_pool option" where
  "step (Get w) s = Some (worker_get w s)"
| "step (Finish w elapsed tb) s = worker_finish w elapsed tb s"

fun exec :: "event list \<Rightarrow> ('p, 'd, 'w) worker_pool \<Rightarrow> ('p, 'd, 'w) worker_pool option" where
  "exec [] s = Some s"
| "exec (e # es) s = (case step e s of None \<Rightarrow> None | Some s' \<Rightarrow> exec es s')"

text \<open>
  \<^verbatim>\<open>start\<close>: \<^verbatim>\<open>ThreadPoolExecutor(max_workers=n)\<close> raises \<^verbatim>\<open>ValueError\<close> for \<open>n \<le> 0\<close>.
  \<^verbatim>\<open>stop\<close>: with an executor and \<^verbatim>\<open>wait\<close>, \<^verbatim>\<open>join\<close> blocks (\<open>None\<close>) while tasks are
  unfinished.
\<close>

definition start :: "('p, 'd, 'w) worker_pool \<Rightarrow> py_error + ('p, 'd, 'w) worker_pool" where
  "start s =
     (if is_running s then Inr s
      else if num_workers s \<le> 0 then Inl (ValueError ''max_workers must be greater than 0'')
      else Inr (s \<lparr> is_running := True, executor := Some (num_workers s) \<rparr>))"

definition stop :: "bool \<Rightarrow> ('p, 'd, 'w) worker_pool \<Rightarrow> ('p, 'd, 'w) worker_pool option" where
  "stop wait s =
     (let s1 = s \<lparr> is_running := False \<rparr> in
      case executor s1 of
        None \<Rightarrow> Some s1
      | Some ex \<Rightarrow>
          if wait \<and> unfinished_tasks s1 \<noteq> 0 then None
          else Some (s1 \<lparr> executor := None \<rparr>))"

text \<open>
  \<^verbatim>\<open>run_until_complete\<close>. \<open>evs\<close> is the schedule of the workers from their submission
  to the return of \<^verbatim>\<open>join\<close>, and \<open>order\<close> the order in which \<^verbatim>\<open>as_completed\<close> yields the
  futures of the workers. The outer \<open>None\<close> is the call that does not return: a worker
  is blocked, or the schedule ends with tasks unfinished and \<^verbatim>\<open>join\<close> still waits. Each
  worker starts with an empty list of results and no task in hand.
\<close>

definition run_until_complete ::
  "event list \<Rightarrow> nat list \<Rightarrow> ('p, 'd, 'w) worker_pool
     \<Rightarrow> (py_error + ('d task_result list \<times> ('p, 'd, 'w) worker_pool)) option" where
  "run_until_complete evs order s =
     (case start s of
        Inl e \<Rightarrow> Some (Inl e)
      | Inr s1 \<Rightarrow>
          (case executor s1 of
             None \<Rightarrow> Some (Inl (AttributeError ''submit''))
           | Some ex \<Rightarrow>
               (case exec evs (s1 \<lparr> holding := Map.empty, worker_results := (\<lambda>_. []) \<rparr>) of
                  None \<Rightarrow> None
                | Some s2 \<Rightarrow>
                    if unfinished_tasks s2 \<noteq> 0 then None
                    else (case stop True s2 of
                            None \<Rightarrow> None
                          | Some s3 \<Rightarrow>
                              (let all_results = concat (map (worker_results s3) order)
                               in Some (Inr (all_results, s3 \<lparr> results := all_results \<rparr>)))))))"

text \<open>\<^verbatim>\<open>get_stats\<close> and \<^verbatim>\<open>get_progress\<close>.\<close>

record pool_stats =
  st_total_tasks :: int
  st_completed_tasks :: int
  st_failed_tasks :: int
  st_retried_tasks :: int
  st_total_execution_time :: real
  queue_size :: int
  st_num_workers :: int
  st_is_running :: bool
  avg_execution_time :: real

definition pool_get_stats :: "('p, 'd, 'w) worker_pool \<Rightarrow> pool_stats" where
  "pool_get_stats s =
     \<lparr> st_total_tasks = total_tasks s,
       st_completed_tasks = completed_tasks s,
       st_failed_tasks = failed_tasks s,
       st_retried_tasks = retried_tasks s,
       st_total_execution_time = total_execution_time s,
       queue_size = int (length (task_queue s)),
       st_num_workers = num_workers s,
       st_is_running = is_running s,
       avg_execution_time =
         (if completed_tasks s > 0
          then total_execution_time s / real_of_int (completed_tasks s)
          else 0) \<rparr>"

definition get_progress :: "('p, 'd, 'w) worker_pool \<Rightarrow> int \<times> int" where
  "get_progress s = (completed_tasks s, total_tasks s)"

subsection \<open>DistributedIngestionCoordinator\<close>

text \<open>Python's \<^verbatim>\<open>str\<close> of a natural number: its decimal digits.\<close>

definition digit_char :: "nat \<Rightarrow> char" where
  "digit_char d = ''0123456789'' ! d"

fun str_nat :: "nat \<Rightarrow> string" where
  "str_nat n =
     (if n < 10 then [digit_char n]
      else str_nat (n div 10) @ [digit_char (n mod 10)])"

declare str_nat.simps [simp del]

text \<open>The params dict of an ingestion task has the two keys \<^verbatim>\<open>item\<close> and \<^verbatim>\<open>collection\<close>.\<close>

record 'i ingest_params =
  item :: 'i
  collection :: string

record ('i, 'd, 'w) coordinator =
  worker_pool :: "('i ingest_params, 'd, 'w) worker_pool"
  total_items_ingested :: int

definition DistributedIngestionCoordinator_init ::
  "('i ingest_params, 'd, 'w) worker_pool \<Rightarrow> ('i, 'd, 'w) coordinator" where
  "DistributedIngestionCoordinator_init p = \<lparr> worker_pool = p, total_items_ingested = 0 \<rparr>"

text \<open>
  The tasks \<^verbatim>\<open>ingest_collection\<close> builds, one per item in the order of the items;
  \<open>created i\<close> is the clock reading at the construction of the task of item \<open>i\<close>.
\<close>

definition ingest_tasks :: "(nat \<Rightarrow> real) \<Rightarrow> string \<Rightarrow> 'i list \<Rightarrow> 'i ingest_params task list" where
  "ingest_tasks created collection_name xs =
     map (\<lambda>(i, x). Task (collection_name @ ''_'' @ str_nat i) ''ingest''
                      \<lparr> item = x, collection = collection_name \<rparr> (created i))
         (enumerate 0 xs)"

text \<open>
  \<^verbatim>\<open>ingest_collection\<close>, with the schedule and the completion order of the run it makes.
  \<open>None\<close>: the call does not return (\<^verbatim>\<open>add_tasks\<close> or the run blocks).
\<close>

definition ingest_collection ::
  "event list \<Rightarrow> nat list \<Rightarrow> (nat \<Rightarrow> real) \<Rightarrow> string \<Rightarrow> 'i list
     \<Rightarrow> ('i ingest_params, 'd, 'w) handler \<Rightarrow> ('i, 'd, 'w) coordinator
     \<Rightarrow> (py_error + ('d task_result list \<times> ('i, 'd, 'w) coordinator)) option" where
  "ingest_collection evs order created collection_name xs processor c =
     (let p1 = register_handler ''ingest'' processor (worker_pool c);
          tasks = ingest_tasks created collection_name xs
      in case add_tasks tasks p1 of
           None \<Rightarrow> None
         | Some p2 \<Rightarrow>
             (case run_until_complete evs order p2 of
                None \<Rightarrow> None
              | Some (Inl e) \<Rightarrow> Some (Inl e)
              | Some (Inr (res, p3)) \<Rightarrow>
                  (let successful = int (length (filter success res))
                   in Some (Inr (res, c \<lparr> worker_pool := p3,
                                         total_items_ingested := total_items_ingested c + successful \<rparr>)))))"

definition get_total_ingested :: "('i, 'd, 'w) coordinator \<Rightarrow> int" where
  "get_total_ingested c = total_items_ingested c"

section \<open>Measures and invariants of a run\<close>

text \<open>
  What the statements about a run are written with. \<open>all_produced\<close> is every result the
  workers hold in their local lists, by worker; \<open>produced\<close> is the same as a multiset.
  \<open>workers_wf\<close>: only the workers of the pool hold tasks.
\<close>

definition all_produced :: "('p, 'd, 'w) worker_pool \<Rightarrow> 'd task_result list" where
  "all_produced s = concat (map (worker_results s) [0 ..< nat (num_workers s)])"

definition produced :: "('p, 'd, 'w) worker_pool \<Rightarrow> 'd task_result multiset" where
  "produced s = mset (all_produced s)"

definition workers_wf :: "('p, 'd, 'w) worker_pool \<Rightarrow> bool" where
  "workers_wf s = (dom (holding s) \<subseteq> {w. int w < num_workers s})"

text \<open>
  The ledger of a pool: what its counters say beyond the results produced. A
  transition of a worker leaves it as it is: the execution time accumulated is that of
  the results, each result is counted as completed or as failed, and the tasks
  unfinished are those put (at the start, or as a retry) less the results. \<open>config\<close>
  are the attributes no transition of a worker writes.
\<close>

definition ledger :: "('p, 'd, 'w) worker_pool \<Rightarrow> real \<times> int \<times> int \<times> int" where
  "ledger s =
     (total_execution_time s - (\<Sum>r \<in># produced s. execution_time r),
      completed_tasks s - int (size (filter_mset success (produced s))),
      failed_tasks s - int (size (filter_mset (\<lambda>r. \<not> success r) (produced s))),
      unfinished_tasks s - retried_tasks s + int (size (produced s)))"

definition config ::
  "('p, 'd, 'w) worker_pool \<Rightarrow> int \<times> int \<times> (string \<rightharpoonup> ('p, 'd, 'w) handler) \<times> bool \<times> int option \<times> int \<times> 'd task_result list" where
  "config s = (num_workers s, max_queue_size s, task_handlers s, is_running s, executor s,
               total_tasks s, results s)"

text \<open>
  A handler, or the lack of one, under which every attempt fails; and the states of a
  run over one such task \<open>t\<close>: the task is in the queue or in the hand of one worker,
  with \<open>r\<close> retries behind it, or it is gone after its last retry. \<open>R0\<close> is the value
  of \<open>retried_tasks\<close> at the start and \<open>H\<close> the handlers.
\<close>

definition always_fails :: "('p, 'd, 'w) handler option \<Rightarrow> bool" where
  "always_fails ho = (case ho of None \<Rightarrow> True | Some h \<Rightarrow> \<forall>p w. isl (fst (h p w)))"

definition single_task ::
  "'p task \<Rightarrow> int \<Rightarrow> (string \<rightharpoonup> ('p, 'd, 'w) handler) \<Rightarrow> ('p, 'd, 'w) worker_pool \<Rightarrow> bool" where
  "single_task t R0 H s =
     (task_handlers s = H \<and> is_running s
      \<and> (\<forall>w. \<forall>x \<in> set (worker_results s w). r_task_id x = task_id t \<and> \<not> success x)
      \<and> ((\<exists>r. retry_count t \<le> r \<and> r \<le> max_retries t
               \<and> retried_tasks s = R0 + (r - retry_count t) \<and> unfinished_tasks s = 1
               \<and> (task_queue s = [t \<lparr> retry_count := r \<rparr>] \<and> holding s = Map.empty
                    \<or> task_queue s = [] \<and> (\<exists>w. holding s = [w \<mapsto> t \<lparr> retry_count := r \<rparr>])))
          \<or> (retried_tasks s = R0 + (max_retries t - retry_count t) \<and> unfinished_tasks s = 0
               \<and> task_queue s = [] \<and> holding s = Map.empty)))"

section \<open>Properties of the rate limiter\<close>

lemma clean_window_head_age:
  assumes "clean_window t w a \<noteq> []"
  shows "t - hd (clean_window t w a) \<le> a"
  using assms hd_dropWhile [of "\<lambda>x. t - x > a" w]
  by (simp add: clean_window_def not_less)

text \<open>
  C3. When both windows are at capacity after the eviction, the call returns, and sleeps
  for, the maximum of the two waits, \<open>60\<close> minus the age of the oldest minute entry and
  \<open>3600\<close> minus the age of the oldest hour entry. The oldest entries exist (the windows
  are not empty), and the clock does not run backwards between the reading on entry
  and the two readings of the eviction. A wait of exactly \<open>0\<close> is returned without a
  call of \<^verbatim>\<open>time.sleep\<close>.
\<close>

theorem wait_if_needed_max_of_waits:
  assumes clock: "now \<le> now_h" "now \<le> now_m"
    and mw: "mw = clean_window now_m (minute_window rl) 60"
    and hw: "hw = clean_window now_h (hour_window rl) 3600"
    and full: "int (length mw) \<ge> requests_per_minute rl" "int (length hw) \<ge> requests_per_hour rl"
    and oldest: "mw \<noteq> []" "hw \<noteq> []"
    and w: "w = max (60 - (now - hd mw)) (3600 - (now - hd hw))"
  shows "\<exists>rl'. wait_if_needed now now_h now_m now_s rl =
            Inr (w, (if w > 0 then Some w else None), rl')"
proof -
  have "now_m - hd mw \<le> 60"
    using clean_window_head_age [of now_m "minute_window rl" 60] oldest mw by simp
  with clock have "0 \<le> 60 - (now - hd mw)" by simp
  then have "max 0 (60 - (now - hd mw)) = 60 - (now - hd mw)" by simp
  moreover have "0 \<le> w" using \<open>0 \<le> 60 - (now - hd mw)\<close> w by simp
  ultimately show ?thesis
    using full oldest mw hw w
    by (simp add: wait_if_needed_def Let_def)
qed

theorem wait_if_needed_max_of_waits_witness:
  "\<exists>rl'. wait_if_needed 120 120 120 3650
      \<lparr> requests_per_hour = 3, requests_per_minute = 2,
        hour_window = [50, 100, 110], minute_window = [100, 110],
        total_requests = 3, total_throttled = 0 \<rparr>
    = Inr (3530, Some 3530, rl')"
  using wait_if_needed_max_of_waits
    [of 120 120 120 "[100, 110]"
        "\<lparr> requests_per_hour = 3, requests_per_minute = 2,
           hour_window = [50, 100, 110], minute_window = [100, 110],
           total_requests = 3, total_throttled = 0 \<rparr>"
        "[50, 100, 110]" 3530 3650]
  by (simp add: clean_window_def)

section \<open>Properties of the trackers and the registries\<close>

lemma sql_count_pos: "sql_count P tb > 0 \<longleftrightarrow> (\<exists>r \<in> set (rows tb). P r)"
  by (auto simp: sql_count_def filter_empty_conv)

lemma filter_key_sql_update:
  assumes "\<And>r md' ts'. P (r \<lparr> metadata_json := md', ingested_at := ts' \<rparr>) = P r"
  shows "filter P (rows (sql_update mj ts nm i tb))
       = map (\<lambda>r. if tracker_name r = nm \<and> item_id r = i
                   then r \<lparr> metadata_json := mj, ingested_at := ts \<rparr> else r)
             (filter P (rows tb))"
proof -
  have "(P \<circ> (\<lambda>r. if tracker_name r = nm \<and> item_id r = i
                   then r \<lparr> metadata_json := mj, ingested_at := ts \<rparr> else r)) = P"
    by (rule ext) (simp add: assms)
  then show ?thesis
    by (simp add: sql_update_def filter_map)
qed

lemma sql_count_sql_update:
  assumes "\<And>r md' ts'. P (r \<lparr> metadata_json := md', ingested_at := ts' \<rparr>) = P r"
  shows "sql_count P (sql_update mj ts nm i tb) = sql_count P tb"
  unfolding sql_count_def filter_key_sql_update [of P, OF assms] by simp

lemma sql_insert_cases:
  "sql_insert nm i h ts mj tb =
     (if sql_count (\<lambda>r. tracker_name r = nm \<and> item_id r = i) tb > 0 then Inl IntegrityError
      else Inr \<lparr> rows = rows tb @
                   [\<lparr> row_id = last_row_id tb + 1, tracker_name = nm, item_id = i,
                      item_hash = h, ingested_at = ts, metadata_json = mj \<rparr>],
                 last_row_id = last_row_id tb + 1 \<rparr>)"
  by (simp add: sql_insert_def sql_count_pos)

lemma sql_count_append_row:
  "sql_count P \<lparr> rows = xs @ [r], last_row_id = n \<rparr> = sql_count P \<lparr> rows = xs, last_row_id = n \<rparr> + (if P r then 1 else 0)"
  by (simp add: sql_count_def)

lemma has_item_add_item_iff:
  "has_item (add_item rt ts i md st) iid \<longleftrightarrow> has_item st iid \<or> iid = i"
proof (cases st)
  case (Pair tr tb)
  show ?thesis
  proof (cases tr)
    case (SQLiteDataTracker nm path)
    show ?thesis
    proof (cases "sql_count (\<lambda>r. tracker_name r = nm \<and> item_id r = i) tb > 0")
      case True
      then show ?thesis
        unfolding Pair SQLiteDataTracker
        by (auto simp: has_item_def add_item_def sql_insert_cases sql_count_sql_update Let_def)
    next
      case False
      then show ?thesis
        unfolding Pair SQLiteDataTracker
        by (auto simp: has_item_def add_item_def sql_insert_cases Let_def sql_count_def)
    qed
  next
    case (InMemoryDataTracker nm its md)
    show ?thesis
      unfolding Pair InMemoryDataTracker
      by (auto simp: has_item_def add_item_def)
  qed
qed

lemma has_item_add_items_iff:
  "has_item (add_items rt calls st) iid \<longleftrightarrow> has_item st iid \<or> iid \<in> call_id ` set calls"
  unfolding add_items_def
  by (induction calls arbitrary: st) (auto simp: has_item_add_item_iff)

lemma total_items_re_add:
  assumes "has_item st iid"
  shows "total_items (get_stats (add_item rt ts iid md st)) = total_items (get_stats st)"
proof (cases st)
  case (Pair tr tb)
  show ?thesis
  proof (cases tr)
    case (SQLiteDataTracker nm path)
    then show ?thesis
      using assms unfolding Pair SQLiteDataTracker
      by (simp add: has_item_def get_stats_def add_item_def Let_def sql_insert_cases
          sql_count_sql_update)
  next
    case (InMemoryDataTracker nm its md)
    show ?thesis
      using assms unfolding Pair InMemoryDataTracker
      by (auto simp: has_item_def add_item_def get_stats_def insert_absorb)
  qed
qed

lemma clear_total_items: "total_items (get_stats (clear st)) = 0"
  by (cases st; cases "fst st")
     (auto simp: clear_def get_stats_def sql_count_def sql_delete_def Let_def)

lemma clear_has_item: "\<not> has_item (clear st) iid"
  by (cases st; cases "fst st")
     (auto simp: clear_def has_item_def sql_count_def sql_delete_def filter_empty_conv)


text \<open>
  C7. For both variants of the tracker and every id: a new volatile tracker and a
  durable tracker on an empty table do not have the id; after \<^verbatim>\<open>add_item\<close> of the id the
  tracker has it, and still has it after any further calls of \<^verbatim>\<open>add_item\<close>; in general,
  after a sequence of calls the tracker has exactly the ids it had before and the ids
  of the calls. \<^verbatim>\<open>add_item\<close> is a total function (the \<^verbatim>\<open>IntegrityError\<close> of the durable
  variant is caught), and adding an id again leaves the number of items as it was.
\<close>

theorem dedup_tracker_has_item_idempotent:
  fixes st :: "'v data_tracker \<times> table"
  shows "\<not> has_item (InMemoryDataTracker_init nm :: 'v data_tracker, tb) iid
       \<and> \<not> has_item (SQLiteDataTracker nm path :: 'v data_tracker, empty_table) iid
       \<and> has_item (add_item rt ts iid md st) iid
       \<and> has_item (add_items rt calls (add_item rt ts iid md st)) iid
       \<and> (has_item (add_items rt calls st) iid \<longleftrightarrow> has_item st iid \<or> iid \<in> call_id ` set calls)
       \<and> (has_item st iid \<longrightarrow>
            total_items (get_stats (add_item rt ts iid md st)) = total_items (get_stats st))"
proof -
  have "\<not> has_item (InMemoryDataTracker_init nm :: 'v data_tracker, tb) iid"
    by (simp add: has_item_def InMemoryDataTracker_init_def)
  moreover have "\<not> has_item (SQLiteDataTracker nm path :: 'v data_tracker, empty_table) iid"
    by (simp add: has_item_def empty_table_def sql_count_def)
  moreover have "has_item (add_item rt ts iid md st) iid"
    by (simp add: has_item_add_item_iff)
  moreover have "has_item (add_items rt calls (add_item rt ts iid md st)) iid"
    by (simp add: has_item_add_items_iff has_item_add_item_iff)
  ultimately show ?thesis
    by (simp add: has_item_add_items_iff total_items_re_add)
qed

theorem dedup_tracker_has_item_idempotent_witness:
  "has_item (add_item \<lparr> json_dumps = (\<lambda>d. ''{}''), sha256_hexdigest = (\<lambda>s. s) \<rparr> ''t1'' ''a'' (None :: nat py_dict option)
              (SQLiteDataTracker ''bills'' ''x.db'', empty_table)) ''a''
   \<and> total_items (get_stats
        (add_item \<lparr> json_dumps = (\<lambda>d. ''{}''), sha256_hexdigest = (\<lambda>s. s) \<rparr> ''t2'' ''a'' (Some [(''k'', 1)])
          (add_item \<lparr> json_dumps = (\<lambda>d. ''{}''), sha256_hexdigest = (\<lambda>s. s) \<rparr> ''t1'' ''a'' (None :: nat py_dict option)
              (SQLiteDataTracker ''bills'' ''x.db'', empty_table)))) = 1"
  using dedup_tracker_has_item_idempotent
    [where iid = "''a''" and ts = "''t2''" and md = "Some [(''k'', 1::nat)]" and calls = "[]"
       and rt = "\<lparr> json_dumps = (\<lambda>d. ''{}''), sha256_hexdigest = (\<lambda>s. s) \<rparr>"
       and st = "add_item \<lparr> json_dumps = (\<lambda>d. ''{}''), sha256_hexdigest = (\<lambda>s. s) \<rparr> ''t1'' ''a'' None
              (SQLiteDataTracker ''bills'' ''x.db'', empty_table)"]
  by (simp add: add_item_def sql_insert_def empty_table_def truthy_def get_stats_def
      sql_count_def has_item_def Let_def)

text \<open>
  C8. For both variants and every state: after \<^verbatim>\<open>clear\<close> the statistics report
  \<open>total_items = 0\<close> and \<^verbatim>\<open>has_item\<close> is false for every id, tracked before or not.
\<close>

theorem dedup_tracker_clear:
  "total_items (get_stats (clear st)) = 0 \<and> \<not> has_item (clear st) iid"
  by (simp add: clear_total_items clear_has_item)

lemma registries_keep_entries:
  "(limiters m nm = Some r \<longrightarrow>
        (\<exists>r2 m2 store2. get_or_create nm2 a b (m, store) = Inr (r2, m2, store2)
            \<and> limiters m2 nm = Some r \<and> take (length store) store2 = store))
   \<and> (trackers tm nm = Some r' \<longrightarrow>
        (\<exists>r2 tm2 tstore2 dbs2. get_tracker nm2 (tm, tstore, dbs) = (r2, tm2, tstore2, dbs2)
            \<and> trackers tm2 nm = Some r' \<and> take (length tstore) tstore2 = tstore))"
  by (auto simp: get_or_create_def RateLimiter_init_def get_tracker_def SQLiteDataTracker_init_def
      split: option.splits)

text \<open>
  C9. For both registries and every name: a call for a name the registry does not hold
  constructs an instance from the arguments of the call, stores it at a new reference
  and returns that reference, and a following call for the name with other arguments
  returns the same reference and changes nothing; in every state, a call for a name the
  registry holds returns the stored reference and leaves registry and store as they
  are, whatever the arguments; and a call for any name \<open>nm2\<close> keeps the entry of every
  name the registry holds and the objects stored so far, so the same holds for every
  later call.
\<close>

theorem registries_get_or_create:
  "(limiters m nm = None \<longrightarrow>
      (\<exists>rl. RateLimiter_init rph rpm = Inr rl \<and>
         get_or_create nm rph rpm (m, store) =
           Inr (length store, m \<lparr> limiters := (limiters m)(nm \<mapsto> length store) \<rparr>, store @ [rl]) \<and>
         get_or_create nm rph' rpm'
             (m \<lparr> limiters := (limiters m)(nm \<mapsto> length store) \<rparr>, store @ [rl]) =
           Inr (length store, m \<lparr> limiters := (limiters m)(nm \<mapsto> length store) \<rparr>, store @ [rl])))
   \<and> (limiters m nm = Some r \<longrightarrow> get_or_create nm rph' rpm' (m, store) = Inr (r, m, store))
   \<and> (trackers tm nm = None \<longrightarrow>
        (\<exists>t dbs'. (t, dbs') = (if storage_type tm = ''sqlite''
                               then SQLiteDataTracker_init nm (mgr_db_path tm) dbs
                               else (InMemoryDataTracker_init nm, dbs)) \<and>
           get_tracker nm (tm, tstore, dbs) =
             (length tstore, tm \<lparr> trackers := (trackers tm)(nm \<mapsto> length tstore) \<rparr>,
              tstore @ [t], dbs') \<and>
           get_tracker nm (tm \<lparr> trackers := (trackers tm)(nm \<mapsto> length tstore) \<rparr>, tstore @ [t], dbs') =
             (length tstore, tm \<lparr> trackers := (trackers tm)(nm \<mapsto> length tstore) \<rparr>,
              tstore @ [t], dbs')))
   \<and> (trackers tm nm = Some r' \<longrightarrow> get_tracker nm (tm, tstore, dbs) = (r', tm, tstore, dbs))
   \<and> (limiters m nm = Some r \<longrightarrow>
        (\<exists>r2 m2 store2. get_or_create nm2 a b (m, store) = Inr (r2, m2, store2)
            \<and> limiters m2 nm = Some r \<and> take (length store) store2 = store))
   \<and> (trackers tm nm = Some r' \<longrightarrow>
        (\<exists>r2 tm2 tstore2 dbs2. get_tracker nm2 (tm, tstore, dbs) = (r2, tm2, tstore2, dbs2)
            \<and> trackers tm2 nm = Some r' \<and> take (length tstore) tstore2 = tstore))"
  using registries_keep_entries [of m nm r nm2 a b store tm r' tstore dbs]
  by (simp add: get_or_create_def RateLimiter_init_def get_tracker_def SQLiteDataTracker_init_def)

theorem registries_get_or_create_witness:
  "get_or_create ''api1'' 1000 10 (RateLimiterManager_init, []) =
     Inr (0, \<lparr> limiters = [''api1'' \<mapsto> 0] \<rparr>,
          [\<lparr> requests_per_hour = 1000, requests_per_minute = 10, hour_window = [],
             minute_window = [], total_requests = 0, total_throttled = 0 \<rparr>])
   \<and> get_or_create ''api1'' 5 1 (\<lparr> limiters = [''api1'' \<mapsto> 0] \<rparr>,
          [\<lparr> requests_per_hour = 1000, requests_per_minute = 10, hour_window = [],
             minute_window = [], total_requests = 0, total_throttled = 0 \<rparr>]) =
     Inr (0, \<lparr> limiters = [''api1'' \<mapsto> 0] \<rparr>,
          [\<lparr> requests_per_hour = 1000, requests_per_minute = 10, hour_window = [],
             minute_window = [], total_requests = 0, total_throttled = 0 \<rparr>])
   \<and> get_tracker ''api1'' (DataTrackerManager_init ''memory'' ''x.db'',
                            [] :: nat data_tracker list, Map.empty) =
       (0, \<lparr> storage_type = ''memory'', mgr_db_path = ''x.db'', trackers = [''api1'' \<mapsto> 0] \<rparr>,
        [InMemoryDataTracker_init ''api1''], Map.empty)
   \<and> get_tracker ''api1''
        (\<lparr> storage_type = ''memory'', mgr_db_path = ''x.db'', trackers = [''api1'' \<mapsto> 0] \<rparr>,
         [InMemoryDataTracker_init ''api1'' :: nat data_tracker], Map.empty) =
       (0, \<lparr> storage_type = ''memory'', mgr_db_path = ''x.db'', trackers = [''api1'' \<mapsto> 0] \<rparr>,
        [InMemoryDataTracker_init ''api1''], Map.empty)"
  using registries_get_or_create
    [where m = RateLimiterManager_init and nm = "''api1''" and rph = 1000 and rpm = 10
       and store = "[]" and rph' = 5 and rpm' = 1 and r = 0 and r' = 0
       and tm = "DataTrackerManager_init ''memory'' ''x.db''"
       and tstore = "[] :: nat data_tracker list" and dbs = Map.empty]
  by (simp add: RateLimiterManager_init_def DataTrackerManager_init_def RateLimiter_init_def)

section \<open>Properties of the constructors\<close>

text \<open>
  C4 as stated fails: a rate limiter with limits \<open>0\<close> and \<open>-1\<close> and a pool with no
  workers are constructed without an error.
\<close>

theorem constructors_accept_nonpositive:
  "RateLimiter_init 0 (- 1) =
     Inr \<lparr> requests_per_hour = 0, requests_per_minute = - 1, hour_window = [],
           minute_window = [], total_requests = 0, total_throttled = 0 \<rparr>
   \<and> \<not> (\<exists>e. (WorkerPool_init 0 1000 () :: py_error + (unit, unit, unit) worker_pool) = Inl e)"
  by (simp add: RateLimiter_init_def WorkerPool_init_def)

text \<open>
  C4, amended. Neither constructor validates its arguments: for all integers the
  construction returns an instance that holds the arguments as given.
\<close>

theorem constructors_do_not_validate:
  "(\<exists>rl. RateLimiter_init rph rpm = Inr rl
         \<and> requests_per_hour rl = rph \<and> requests_per_minute rl = rpm
         \<and> hour_window rl = [] \<and> minute_window rl = [])
   \<and> (\<exists>p. (WorkerPool_init n q w :: py_error + ('p, 'd, 'w) worker_pool) = Inr p
         \<and> num_workers p = n \<and> max_queue_size p = q \<and> task_queue p = [] \<and> \<not> is_running p)"
  by (simp add: RateLimiter_init_def WorkerPool_init_def)

text \<open>
  What becomes of such instances is decided at their first use. A limiter with a limit
  that is not positive finds its empty window at capacity and reads its head; a pool
  without workers fails to build its executor.
\<close>

lemma nonpositive_limit_first_use:
  assumes "RateLimiter_init rph rpm = Inr rl" and "rph \<le> 0 \<or> rpm \<le> 0"
  shows "wait_if_needed now now_h now_m now_s rl = Inl IndexError"
  using assms by (auto simp: RateLimiter_init_def wait_if_needed_def clean_window_def Let_def)

lemma no_workers_first_run:
  assumes "WorkerPool_init n q w = Inr p" and "n \<le> 0"
  shows "run_until_complete evs order p =
           Some (Inl (ValueError ''max_workers must be greater than 0''))"
  using assms by (auto simp: WorkerPool_init_def run_until_complete_def start_def)

section \<open>Properties of the worker pool\<close>

subsection \<open>The transitions of a worker\<close>

lemma worker_finish_idle: "holding s w = None \<Longrightarrow> worker_finish w d tb s = Some s"
  by (simp add: worker_finish_def)

lemma worker_finish_held:
  assumes "holding s w = Some t"
  shows "worker_finish w d tb s =
    (let res = fst (execute_task s t w d tb); wld = snd (execute_task s t w d tb) in
     if success res then
       Some (s \<lparr> world := wld,
                 worker_results := (worker_results s)(w := worker_results s w @ [res]),
                 completed_tasks := completed_tasks s + 1,
                 total_execution_time := total_execution_time s + execution_time res,
                 unfinished_tasks := unfinished_tasks s - 1,
                 holding := (holding s)(w := None) \<rparr>)
     else if retry_count t < max_retries t then
       (if queue_full s then None
        else Some (s \<lparr> world := wld,
                 worker_results := (worker_results s)(w := worker_results s w @ [res]),
                 failed_tasks := failed_tasks s + 1,
                 task_queue := task_queue s @ [t \<lparr> retry_count := retry_count t + 1 \<rparr>],
                 retried_tasks := retried_tasks s + 1,
                 total_execution_time := total_execution_time s + execution_time res,
                 unfinished_tasks := unfinished_tasks s,
                 holding := (holding s)(w := None) \<rparr>))
     else
       Some (s \<lparr> world := wld,
                 worker_results := (worker_results s)(w := worker_results s w @ [res]),
                 failed_tasks := failed_tasks s + 1,
                 total_execution_time := total_execution_time s + execution_time res,
                 unfinished_tasks := unfinished_tasks s - 1,
                 holding := (holding s)(w := None) \<rparr>))"
  using assms
  by (cases "execute_task s t w d tb")
     (simp add: worker_finish_def queue_put_def queue_full_def Let_def)

lemma mset_concat_upd:
  "distinct xs \<Longrightarrow>
   mset (concat (map (f(w := f w @ [r])) xs)) =
     mset (concat (map f xs)) + (if w \<in> set xs then {#r#} else {#})"
  by (induction xs) auto

lemma produced_append:
  assumes "int w < num_workers s"
  shows "mset (concat (map ((worker_results s)(w := worker_results s w @ [r])) [0 ..< nat (num_workers s)]))
       = mset (all_produced s) + {#r#}"
  using assms by (simp add: mset_concat_upd all_produced_def)

lemma produced_finish:
  assumes "int w < num_workers s" "num_workers s' = num_workers s"
    "worker_results s' = (worker_results s)(w := worker_results s w @ [r])"
  shows "produced s' = produced s + {#r#}"
  using produced_append [OF assms(1), of r] assms(2,3)
  by (simp add: produced_def all_produced_def)

lemma produced_same:
  assumes "num_workers s' = num_workers s" "worker_results s' = worker_results s"
  shows "produced s' = produced s"
  using assms by (simp add: produced_def all_produced_def)

lemma worker_get_preserves:
  assumes "workers_wf s"
  shows "workers_wf (worker_get w s) \<and> ledger (worker_get w s) = ledger s
       \<and> config (worker_get w s) = config s"
proof -
  have p: "produced (worker_get w s) = produced s"
    by (rule produced_same) (simp_all add: worker_get_def split: list.split)
  have "workers_wf (worker_get w s)"
    using assms by (auto simp: workers_wf_def worker_get_def split: list.split if_splits)
  moreover have "ledger (worker_get w s) = ledger s"
    unfolding ledger_def p by (simp add: worker_get_def split: list.split)
  moreover have "config (worker_get w s) = config s"
    by (simp add: config_def worker_get_def split: list.split)
  ultimately show ?thesis by simp
qed

lemma worker_finish_preserves:
  assumes wf: "workers_wf s" and st: "worker_finish w d tb s = Some s'"
  shows "workers_wf s' \<and> ledger s' = ledger s \<and> config s' = config s"
proof (cases "holding s w")
  case None
  with st wf show ?thesis by (simp add: worker_finish_idle)
next
  case (Some t)
  then have w: "int w < num_workers s" using wf by (auto simp: workers_wf_def)
  define res where "res = fst (execute_task s t w d tb)"
  have fields: "num_workers s' = num_workers s"
      "worker_results s' = (worker_results s)(w := worker_results s w @ [res])"
      "holding s' = (holding s)(w := None)"
      "config s' = config s"
    using st unfolding worker_finish_held [OF Some] config_def res_def
    by (auto simp: Let_def split: if_splits)
  have p: "produced s' = produced s + {#res#}"
    by (rule produced_finish [OF w fields(1,2)])
  have "workers_wf s'"
    using wf fields(1,3) by (auto simp: workers_wf_def)
  moreover have "ledger s' = ledger s"
    using st unfolding worker_finish_held [OF Some] ledger_def p res_def [symmetric]
    by (auto simp: Let_def split: if_splits)
  ultimately show ?thesis using fields(4) by simp
qed

lemma step_preserves:
  assumes "workers_wf s" "step e s = Some s'"
  shows "workers_wf s' \<and> ledger s' = ledger s \<and> config s' = config s"
  using assms worker_get_preserves [of s] worker_finish_preserves [of s]
  by (cases e) auto

lemma exec_preserves:
  assumes "workers_wf s" "exec evs s = Some s'"
  shows "workers_wf s' \<and> ledger s' = ledger s \<and> config s' = config s"
  using assms
proof (induction evs arbitrary: s)
  case Nil
  then show ?case by simp
next
  case (Cons e evs)
  from Cons.prems obtain s1 where s1: "step e s = Some s1" "exec evs s1 = Some s'"
    by (auto split: option.splits)
  from step_preserves [OF Cons.prems(1) s1(1)] Cons.IH [OF _ s1(2)]
  show ?case by simp
qed

lemma execute_task_task_id: "r_task_id (fst (execute_task s t w d tb)) = task_id t"
  by (simp add: execute_task_def split: option.split prod.split sum.split)

lemma execute_task_fails:
  assumes "always_fails (task_handlers s (task_type t))"
  shows "\<not> success (fst (execute_task s t w d tb))"
proof (cases "task_handlers s (task_type t)")
  case None
  then show ?thesis by (simp add: execute_task_def)
next
  case (Some h)
  with assms have "isl (fst (h (params t) (world s)))" by (simp add: always_fails_def)
  then show ?thesis
    using Some by (cases "h (params t) (world s)") (auto simp: execute_task_def isl_def)
qed

subsection \<open>A run\<close>

lemma mset_concat_map_perm:
  assumes "mset xs = mset ys"
  shows "mset (concat (map f xs)) = mset (concat (map f ys))"
proof -
  have "mset (concat (map f zs)) = (\<Sum>z \<in># mset zs. mset (f z))" for zs
    by (induction zs) simp_all
  with assms show ?thesis by simp
qed

lemma run_until_complete_returns:
  assumes "run_until_complete evs order s = Some (Inr (res, s'))"
  obtains s1 s2 where
    "start s = Inr s1"
    "exec evs (s1 \<lparr> holding := Map.empty, worker_results := (\<lambda>_. []) \<rparr>) = Some s2"
    "unfinished_tasks s2 = 0"
    "res = concat (map (worker_results s2) order)"
    "s' = s2 \<lparr> is_running := False, executor := None, results := res \<rparr>"
  using assms
  by (auto simp: run_until_complete_def stop_def Let_def
      split: sum.splits option.splits if_splits)

lemma start_idle:
  assumes "\<not> is_running s" "0 < num_workers s"
  shows "start s = Inr (s \<lparr> is_running := True, executor := Some (num_workers s) \<rparr>)"
  using assms by (simp add: start_def)

lemma run_until_complete_idle:
  assumes "\<not> is_running s" "0 < num_workers s"
  shows "run_until_complete evs order s =
     (case exec evs (s \<lparr> is_running := True, executor := Some (num_workers s),
                          holding := Map.empty, worker_results := (\<lambda>_. []) \<rparr>) of
        None \<Rightarrow> None
      | Some s2 \<Rightarrow>
          if unfinished_tasks s2 \<noteq> 0 then None
          else Some (Inr (concat (map (worker_results s2) order),
                          s2 \<lparr> is_running := False, executor := None,
                               results := concat (map (worker_results s2) order) \<rparr>)))"
proof -
  have "executor s2 \<noteq> None"
    if "exec evs (s \<lparr> is_running := True, executor := Some (num_workers s),
                          holding := Map.empty, worker_results := (\<lambda>_. []) \<rparr>) = Some s2" for s2
  proof -
    have "workers_wf (s \<lparr> is_running := True, executor := Some (num_workers s),
                          holding := Map.empty, worker_results := (\<lambda>_. []) \<rparr>)"
      by (simp add: workers_wf_def)
    from exec_preserves [OF this that] show ?thesis by (simp add: config_def)
  qed
  then show ?thesis
    by (auto simp: run_until_complete_def start_idle [OF assms] stop_def Let_def
        split: option.splits)
qed

lemma add_task_fields:
  assumes "add_task t p = Some s"
  shows "s = p \<lparr> task_queue := task_queue p @ [t], unfinished_tasks := unfinished_tasks p + 1,
                  total_tasks := total_tasks p + 1 \<rparr>"
  using assms by (auto simp: add_task_def queue_put_def split: if_splits option.splits)

lemma add_tasks_fields:
  assumes "add_tasks ts p = Some s"
  shows "s = p \<lparr> task_queue := task_queue p @ ts,
                  unfinished_tasks := unfinished_tasks p + int (length ts),
                  total_tasks := total_tasks p + int (length ts) \<rparr>"
  using assms
proof (induction ts arbitrary: p)
  case Nil
  then show ?case by simp
next
  case (Cons t ts)
  then obtain p1 where p1: "add_task t p = Some p1" "add_tasks ts p1 = Some s"
    by (auto split: option.splits)
  show ?case
    unfolding Cons.IH [OF p1(2)] add_task_fields [OF p1(1)] by simp
qed

lemma run_accounting:
  assumes idle: "\<not> is_running s" "0 < num_workers s"
    and order: "mset order = mset [0 ..< nat (num_workers s)]"
    and run: "run_until_complete evs order s = Some (Inr (res, s'))"
  shows "total_tasks s' = total_tasks s
       \<and> task_handlers s' = task_handlers s
       \<and> int (length res) = unfinished_tasks s + (retried_tasks s' - retried_tasks s)
       \<and> total_execution_time s' = total_execution_time s + sum_list (map execution_time res)
       \<and> completed_tasks s' = completed_tasks s + int (length (filter success res))
       \<and> failed_tasks s' = failed_tasks s + int (length (filter (\<lambda>r. \<not> success r) res))"
proof -
  define s0 where "s0 = s \<lparr> is_running := True, executor := Some (num_workers s),
                             holding := Map.empty, worker_results := (\<lambda>_. []) \<rparr>"
  from run obtain s2 where s2: "exec evs s0 = Some s2" "unfinished_tasks s2 = 0"
      "res = concat (map (worker_results s2) order)"
      "s' = s2 \<lparr> is_running := False, executor := None, results := res \<rparr>"
    unfolding run_until_complete_idle [OF idle] s0_def
    by (auto split: option.splits if_splits)
  have wf0: "workers_wf s0" by (simp add: workers_wf_def s0_def)
  have p0: "produced s0 = {#}" by (simp add: produced_def all_produced_def s0_def)
  from exec_preserves [OF wf0 s2(1)]
  have led: "ledger s2 = ledger s0" and cfg: "config s2 = config s0" by simp_all
  have nw: "num_workers s2 = num_workers s" using cfg by (simp add: config_def s0_def)
  have p2: "produced s2 = mset res"
    unfolding produced_def all_produced_def nw s2(3)
    by (rule mset_concat_map_perm [OF order [symmetric]])
  have sums: "(\<Sum>r \<in># mset res. execution_time r) = sum_list (map execution_time res)"
    by (metis mset_map sum_mset_sum_list)
  have "size (filter_mset P (mset res)) = length (filter P res)" for P
    by (metis mset_filter size_mset)
  with led cfg p0 p2 sums s2(2) show ?thesis
    by (simp add: ledger_def config_def s0_def s2(4))
qed

lemma run_until_complete_handlers:
  assumes "run_until_complete evs order s = Some (Inr (res, s'))"
  shows "task_handlers s' = task_handlers s"
proof -
  from assms obtain s1 s2 where r: "start s = Inr s1"
    "exec evs (s1 \<lparr> holding := Map.empty, worker_results := (\<lambda>_. []) \<rparr>) = Some s2"
    "s' = s2 \<lparr> is_running := False, executor := None, results := res \<rparr>"
    by (rule run_until_complete_returns)
  have "task_handlers s1 = task_handlers s"
    using r(1) by (auto simp: start_def split: if_splits)
  moreover have "workers_wf (s1 \<lparr> holding := Map.empty, worker_results := (\<lambda>_. []) \<rparr>)"
    by (simp add: workers_wf_def)
  from exec_preserves [OF this r(2)]
  have "task_handlers s2 = task_handlers s1" by (simp add: config_def)
  ultimately show ?thesis by (simp add: r(3))
qed

subsection \<open>A task without a handler\<close>

text \<open>
  C1 as stated fails: a new pool with one worker and no handler, and one task with the
  defaults of the dataclass (\<open>retry_count = 0\<close>, \<open>max_retries = 3\<close>). The run makes four
  attempts, all failed, and puts the task back three times.
\<close>

theorem unknown_handler_is_retried:
  "map_option (map_sum id (\<lambda>(res, s'). (map success res, map r_task_id res,
                                           retried_tasks s', failed_tasks s', task_queue s')))
     (case add_task (Task ''task_1'' ''unknown'' () 0)
             (projr (WorkerPool_init 1 1000 () :: py_error + (unit, unit, unit) worker_pool)) of
        None \<Rightarrow> None
      | Some s \<Rightarrow>
          run_until_complete
            [Get 0, Finish 0 0 [], Get 0, Finish 0 0 [], Get 0, Finish 0 0 [], Get 0, Finish 0 0 []]
            [0] s)
   = Some (Inr ([False, False, False, False], [''task_1'', ''task_1'', ''task_1'', ''task_1''],
                3, 4, []))"
  by (simp add: WorkerPool_init_def add_task_def queue_put_def queue_full_def Task_def
      run_until_complete_def start_def stop_def
      worker_get_def worker_finish_def execute_task_def Let_def)

text \<open>
  C1, amended. When a worker finishes a task whose type has no handler, it records a
  failed result for the task, with the message of the missing handler, and treats the
  failure like that of a handler: with \<open>retry_count < max_retries\<close> the task goes back to
  the end of the queue with \<open>retry_count\<close> one higher and counts as retried; otherwise
  the failure is the last of the task. No handler is called, so the world is as
  before. (The queue has room for the retry: a worker that took its task from a
  queue within its bound always finds it so.)
\<close>

theorem unknown_handler_failure_retried_while_retries_left:
  assumes "holding s w = Some t" and "task_handlers s (task_type t) = None"
    and "\<not> queue_full s"
  shows "\<exists>s'. worker_finish w d tb s = Some s'
      \<and> worker_results s' w = worker_results s w @
          [\<lparr> r_task_id = task_id t, success = False, data = None,
             error = Some (''No handler registered for task type: '' @ task_type t @ [CHR 0x0A] @ tb),
             execution_time = d, worker_id = w \<rparr>]
      \<and> failed_tasks s' = failed_tasks s + 1
      \<and> completed_tasks s' = completed_tasks s
      \<and> world s' = world s
      \<and> (if retry_count t < max_retries t
          then task_queue s' = task_queue s @ [t \<lparr> retry_count := retry_count t + 1 \<rparr>]
               \<and> retried_tasks s' = retried_tasks s + 1
               \<and> unfinished_tasks s' = unfinished_tasks s
          else task_queue s' = task_queue s
               \<and> retried_tasks s' = retried_tasks s
               \<and> unfinished_tasks s' = unfinished_tasks s - 1)"
  using assms
  by (simp add: worker_finish_held [OF assms(1)] execute_task_def Let_def)

theorem unknown_handler_failure_retried_while_retries_left_witness:
  "\<exists>s'. worker_finish 0 0 []
        \<lparr> num_workers = 1, max_queue_size = 1000, task_queue = [],
          unfinished_tasks = 1, results = [], executor = Some 1,
          total_tasks = 1, completed_tasks = 0, failed_tasks = 0, retried_tasks = 0,
          total_execution_time = 0, is_running = True,
          task_handlers = (Map.empty :: string \<rightharpoonup> (unit, unit, unit) handler),
          holding = [0 \<mapsto> Task ''task_1'' ''unknown'' () 0],
          worker_results = (\<lambda>_. []), world = () \<rparr> = Some s'
      \<and> task_queue s' = [(Task ''task_1'' ''unknown'' () 0) \<lparr> retry_count := 1 \<rparr>]
      \<and> retried_tasks s' = 1 \<and> failed_tasks s' = 1"
  using unknown_handler_failure_retried_while_retries_left
    [where w = 0 and d = 0 and tb = "[]" and t = "Task ''task_1'' ''unknown'' () 0"
       and s = "\<lparr> num_workers = 1, max_queue_size = 1000, task_queue = [],
          unfinished_tasks = 1, results = [], executor = Some 1,
          total_tasks = 1, completed_tasks = 0, failed_tasks = 0, retried_tasks = 0,
          total_execution_time = 0, is_running = True,
          task_handlers = (Map.empty :: string \<rightharpoonup> (unit, unit, unit) handler),
          holding = [0 \<mapsto> Task ''task_1'' ''unknown'' () 0],
          worker_results = (\<lambda>_. []), world = () \<rparr>"]
  by (auto simp: queue_full_def Task_def)

subsection \<open>A task whose handler always fails\<close>

lemma single_task_get:
  assumes "single_task t R0 H s"
  shows "single_task t R0 H (worker_get w s)"
proof (cases "\<not> is_running s \<or> num_workers s \<le> int w \<or> holding s w \<noteq> None \<or> task_queue s = []")
  case True
  then have "worker_get w s = s" by (auto simp: worker_get_def split: list.split)
  with assms show ?thesis by simp
next
  case False
  then obtain r where r: "retry_count t \<le> r" "r \<le> max_retries t"
      "retried_tasks s = R0 + (r - retry_count t)" "unfinished_tasks s = 1"
      "task_queue s = [t \<lparr> retry_count := r \<rparr>]" "holding s = Map.empty"
    using assms by (auto simp: single_task_def)
  have g: "worker_get w s = s \<lparr> task_queue := [], holding := [w \<mapsto> t \<lparr> retry_count := r \<rparr>] \<rparr>"
    using False r by (simp add: worker_get_def)
  show ?thesis
    unfolding g using assms r by (auto simp: single_task_def)
qed

lemma single_task_finish:
  assumes inv: "single_task t R0 H s" and fails: "always_fails (H (task_type t))"
  shows "\<exists>s'. worker_finish w d tb s = Some s' \<and> single_task t R0 H s'"
proof (cases "holding s w")
  case None
  with inv show ?thesis by (simp add: worker_finish_idle)
next
  case (Some t')
  then obtain r where r: "retry_count t \<le> r" "r \<le> max_retries t"
      "retried_tasks s = R0 + (r - retry_count t)" "unfinished_tasks s = 1"
      "task_queue s = []" "holding s = [w \<mapsto> t \<lparr> retry_count := r \<rparr>]"
    using inv by (auto simp: single_task_def split: if_splits)
  have held: "holding s w = Some (t \<lparr> retry_count := r \<rparr>)" using Some r(6) by simp
  define res where "res = fst (execute_task s (t \<lparr> retry_count := r \<rparr>) w d tb)"
  define wld where "wld = snd (execute_task s (t \<lparr> retry_count := r \<rparr>) w d tb)"
  have H: "task_handlers s = H" using inv by (simp add: single_task_def)
  have res: "\<not> success res" "r_task_id res = task_id t"
    using execute_task_fails [of s "t \<lparr> retry_count := r \<rparr>" w d tb] fails H
      execute_task_task_id [of s "t \<lparr> retry_count := r \<rparr>" w d tb]
    by (simp_all add: res_def)
  have nf: "\<not> queue_full s" using r(5) by (simp add: queue_full_def)
  have old: "\<forall>w. \<forall>x \<in> set (worker_results s w). r_task_id x = task_id t \<and> \<not> success x"
    using inv by (simp add: single_task_def)
  have run: "is_running s" using inv by (simp add: single_task_def)
  show ?thesis
  proof (cases "r < max_retries t")
    case True
    define s' where "s' = s \<lparr> world := wld,
                 worker_results := (worker_results s)(w := worker_results s w @ [res]),
                 failed_tasks := failed_tasks s + 1,
                 task_queue := task_queue s @ [t \<lparr> retry_count := r + 1 \<rparr>],
                 retried_tasks := retried_tasks s + 1,
                 total_execution_time := total_execution_time s + execution_time res,
                 unfinished_tasks := unfinished_tasks s,
                 holding := (holding s)(w := None) \<rparr>"
    have "worker_finish w d tb s = Some s'"
      using res(1) True nf
      unfolding worker_finish_held [OF held] s'_def res_def wld_def
      by (simp add: Let_def)
    moreover have "single_task t R0 H s'"
      unfolding single_task_def
    proof (intro conjI)
      show "task_handlers s' = H" using H by (simp add: s'_def)
      show "is_running s'" using run by (simp add: s'_def)
      show "\<forall>w. \<forall>x \<in> set (worker_results s' w). r_task_id x = task_id t \<and> \<not> success x"
        using old res by (auto simp: s'_def)
      have "retry_count t \<le> r + 1 \<and> r + 1 \<le> max_retries t
               \<and> retried_tasks s' = R0 + (r + 1 - retry_count t) \<and> unfinished_tasks s' = 1
               \<and> task_queue s' = [t \<lparr> retry_count := r + 1 \<rparr>] \<and> holding s' = Map.empty"
        using r True by (simp add: s'_def)
      then show "(\<exists>r. retry_count t \<le> r \<and> r \<le> max_retries t
               \<and> retried_tasks s' = R0 + (r - retry_count t) \<and> unfinished_tasks s' = 1
               \<and> (task_queue s' = [t \<lparr> retry_count := r \<rparr>] \<and> holding s' = Map.empty
                    \<or> task_queue s' = [] \<and> (\<exists>w. holding s' = [w \<mapsto> t \<lparr> retry_count := r \<rparr>])))
          \<or> (retried_tasks s' = R0 + (max_retries t - retry_count t) \<and> unfinished_tasks s' = 0
               \<and> task_queue s' = [] \<and> holding s' = Map.empty)"
        by blast
    qed
    ultimately show ?thesis by blast
  next
    case False
    with r have rk: "r = max_retries t" by simp
    define s' where "s' = s \<lparr> world := wld,
                 worker_results := (worker_results s)(w := worker_results s w @ [res]),
                 failed_tasks := failed_tasks s + 1,
                 total_execution_time := total_execution_time s + execution_time res,
                 unfinished_tasks := unfinished_tasks s - 1,
                 holding := (holding s)(w := None) \<rparr>"
    have "worker_finish w d tb s = Some s'"
      using res(1) False
      unfolding worker_finish_held [OF held] s'_def res_def wld_def
      by (simp add: Let_def)
    moreover have "single_task t R0 H s'"
      unfolding single_task_def
    proof (intro conjI)
      show "task_handlers s' = H" using H by (simp add: s'_def)
      show "is_running s'" using run by (simp add: s'_def)
      show "\<forall>w. \<forall>x \<in> set (worker_results s' w). r_task_id x = task_id t \<and> \<not> success x"
        using old res by (auto simp: s'_def)
      have "retried_tasks s' = R0 + (max_retries t - retry_count t) \<and> unfinished_tasks s' = 0
               \<and> task_queue s' = [] \<and> holding s' = Map.empty"
        using r rk by (simp add: s'_def)
      then show "(\<exists>r. retry_count t \<le> r \<and> r \<le> max_retries t
               \<and> retried_tasks s' = R0 + (r - retry_count t) \<and> unfinished_tasks s' = 1
               \<and> (task_queue s' = [t \<lparr> retry_count := r \<rparr>] \<and> holding s' = Map.empty
                    \<or> task_queue s' = [] \<and> (\<exists>w. holding s' = [w \<mapsto> t \<lparr> retry_count := r \<rparr>])))
          \<or> (retried_tasks s' = R0 + (max_retries t - retry_count t) \<and> unfinished_tasks s' = 0
               \<and> task_queue s' = [] \<and> holding s' = Map.empty)"
        by blast
    qed
    ultimately show ?thesis by blast
  qed
qed

lemma single_task_exec:
  assumes "single_task t R0 H s" "always_fails (H (task_type t))"
  shows "\<exists>s'. exec evs s = Some s' \<and> single_task t R0 H s'"
  using assms(1)
proof (induction evs arbitrary: s)
  case Nil
  then show ?case by simp
next
  case (Cons e evs)
  show ?case
  proof (cases e)
    case (Get w)
    with Cons.IH [OF single_task_get [OF Cons.prems, of w]] show ?thesis by simp
  next
    case (Finish w d tb)
    from single_task_finish [OF Cons.prems assms(2), of w d tb]
    obtain s1 where s1: "worker_finish w d tb s = Some s1" "single_task t R0 H s1" by blast
    with Cons.IH [OF s1(2)] Finish show ?thesis by simp
  qed
qed

lemma single_task_round:
  assumes fails: "always_fails (task_handlers s (task_type t))"
    and run: "is_running s" "0 < num_workers s"
    and st: "holding s = Map.empty" "task_queue s = [t \<lparr> retry_count := r \<rparr>]"
            "unfinished_tasks s = 1"
  shows "\<exists>s'. exec [Get 0, Finish 0 d tb] s = Some s'
            \<and> task_handlers s' = task_handlers s \<and> is_running s' \<and> 0 < num_workers s'
            \<and> holding s' = Map.empty
            \<and> (if r < max_retries t
                then task_queue s' = [t \<lparr> retry_count := r + 1 \<rparr>] \<and> unfinished_tasks s' = 1
                else unfinished_tasks s' = 0)"
proof -
  define sg where "sg = s \<lparr> task_queue := [], holding := [0 \<mapsto> t \<lparr> retry_count := r \<rparr>] \<rparr>"
  have g: "worker_get 0 s = sg"
    using run st by (simp add: worker_get_def sg_def)
  have held: "holding sg 0 = Some (t \<lparr> retry_count := r \<rparr>)" by (simp add: sg_def)
  have "always_fails (task_handlers sg (task_type (t \<lparr> retry_count := r \<rparr>)))"
    using fails by (simp add: sg_def)
  from execute_task_fails [OF this]
  have res: "\<not> success (fst (execute_task sg (t \<lparr> retry_count := r \<rparr>) 0 d tb))" .
  have nf: "\<not> queue_full sg" by (simp add: queue_full_def sg_def)
  show ?thesis
    using res nf run st
    by (simp add: g worker_finish_held [OF held] Let_def) (simp add: sg_def)
qed

lemma single_task_drains:
  assumes "always_fails (task_handlers s (task_type t))"
    and "is_running s" "0 < num_workers s"
    and "holding s = Map.empty" "task_queue s = [t \<lparr> retry_count := r \<rparr>]"
        "unfinished_tasks s = 1"
    and "m = nat (max_retries t - r)"
  shows "\<exists>s'. exec (concat (replicate (Suc m) [Get 0, Finish 0 d tb])) s = Some s'
            \<and> unfinished_tasks s' = 0"
  using assms
proof (induction m arbitrary: s r)
  case 0
  then have "\<not> r < max_retries t" by simp
  with single_task_round [OF "0.prems"(1-6), of d tb] show ?case by auto
next
  case (Suc m)
  then have lt: "r < max_retries t" by simp
  from single_task_round [OF Suc.prems(1-6), of d tb] lt
  obtain s1 where s1: "exec [Get 0, Finish 0 d tb] s = Some s1"
      "task_handlers s1 = task_handlers s" "is_running s1" "0 < num_workers s1"
      "holding s1 = Map.empty" "task_queue s1 = [t \<lparr> retry_count := r + 1 \<rparr>]"
      "unfinished_tasks s1 = 1"
    by auto
  have "m = nat (max_retries t - (r + 1))" using Suc.prems(7) by simp
  from Suc.IH [OF _ s1(3,4,5,6,7) this] Suc.prems(1) s1(2)
  obtain s' where "exec (concat (replicate (Suc m) [Get 0, Finish 0 d tb])) s1 = Some s'"
      "unfinished_tasks s' = 0"
    by auto
  with s1(1) show ?case
    by (auto split: option.splits)
qed

text \<open>
  C2 as stated fails: \<open>retry_count\<close> is a field of the task that the caller can set, and
  the pool compares it with \<open>max_retries\<close>. A task submitted with \<open>retry_count = 1\<close> and
  \<open>max_retries = 1\<close> to a pool whose handler always fails is attempted once and never put
  back: one result and no retry, where the claim has two results and one retry.
\<close>

theorem preset_retry_count_shortens_run:
  "map_option (map_sum id (\<lambda>(res, s'). (map success res, map r_task_id res,
                                           retried_tasks s', failed_tasks s', task_queue s')))
     (case add_task ((Task ''task_1'' ''failing_task'' () 0) \<lparr> retry_count := 1, max_retries := 1 \<rparr>)
             (register_handler ''failing_task'' (\<lambda>p w. (Inl ''Test error'', w))
                (projr (WorkerPool_init 1 1000 () :: py_error + (unit, unit, unit) worker_pool))) of
        None \<Rightarrow> None
      | Some s \<Rightarrow> run_until_complete [Get 0, Finish 0 0 []] [0] s)
   = Some (Inr ([False], [''task_1''], 0, 1, []))"
  by (simp add: WorkerPool_init_def register_handler_def add_task_def queue_put_def queue_full_def
      Task_def run_until_complete_def start_def stop_def
      worker_get_def worker_finish_def execute_task_def Let_def)

text \<open>
  C2, amended: the task is submitted with \<open>retry_count = 0\<close>, the default of the
  dataclass. A pool that is not running, with at least one worker, holds the single
  task \<open>t\<close>, submitted with \<open>retry_count = 0\<close> and \<open>max_retries = k\<close>, and the handler of
  its type fails at every call. Then \<^verbatim>\<open>run_until_complete\<close> returns under the schedule in
  which worker \<open>0\<close> makes \<open>k + 1\<close> attempts; and under every schedule and every
  completion order, if it returns, it returns exactly \<open>k + 1\<close> results, all of them
  failures of \<open>t\<close>, after \<open>k\<close> retries (\<open>retried_tasks\<close> is \<open>k\<close> higher, \<open>failed_tasks\<close>
  is \<open>k + 1\<close> higher) and with the queue empty. It never raises, and no worker blocks.
\<close>

theorem always_failing_task_k_plus_1_results:
  assumes idle: "\<not> is_running s" "0 < num_workers s"
    and queue: "task_queue s = [t]" "unfinished_tasks s = 1"
    and handler: "task_handlers s (task_type t) = Some h" "\<forall>p w. isl (fst (h p w))"
    and task: "retry_count t = 0" "max_retries t = int k"
    and order: "mset order = mset [0 ..< nat (num_workers s)]"
  shows "(\<exists>res s'. run_until_complete (concat (replicate (Suc k) [Get 0, Finish 0 d tb])) order s
                      = Some (Inr (res, s')))
       \<and> (\<forall>evs out. run_until_complete evs order s = Some out \<longrightarrow>
            (\<exists>res s'. out = Inr (res, s') \<and> length res = k + 1
               \<and> (\<forall>x \<in> set res. r_task_id x = task_id t \<and> \<not> success x)
               \<and> retried_tasks s' = retried_tasks s + int k
               \<and> failed_tasks s' = failed_tasks s + int k + 1
               \<and> task_queue s' = []))"
proof -
  define s0 where "s0 = s \<lparr> is_running := True, executor := Some (num_workers s),
                             holding := Map.empty, worker_results := (\<lambda>_. []) \<rparr>"
  have fails: "always_fails (task_handlers s0 (task_type t))"
    using handler by (simp add: always_fails_def s0_def)
  have tt: "t \<lparr> retry_count := 0 \<rparr> = t" using task(1) by simp
  have inv0: "single_task t (retried_tasks s) (task_handlers s0) s0"
    unfolding single_task_def using queue task tt
    by (auto simp: s0_def intro!: exI [of _ 0])
  have wf0: "workers_wf s0" by (simp add: workers_wf_def s0_def)
  have p0: "produced s0 = {#}" by (simp add: produced_def all_produced_def s0_def)
  have run: "run_until_complete evs order s =
     (case exec evs s0 of
        None \<Rightarrow> None
      | Some s2 \<Rightarrow>
          if unfinished_tasks s2 \<noteq> 0 then None
          else Some (Inr (concat (map (worker_results s2) order),
                          s2 \<lparr> is_running := False, executor := None,
                               results := concat (map (worker_results s2) order) \<rparr>)))" for evs
    unfolding s0_def by (rule run_until_complete_idle [OF idle])
  have "\<exists>s'. exec (concat (replicate (Suc k) [Get 0, Finish 0 d tb])) s0 = Some s'
            \<and> unfinished_tasks s' = 0"
    by (rule single_task_drains [OF fails, where r = 0])
       (use queue task tt idle in \<open>simp_all add: s0_def\<close>)
  then have first: "\<exists>res s'. run_until_complete (concat (replicate (Suc k) [Get 0, Finish 0 d tb])) order s
                      = Some (Inr (res, s'))"
    unfolding run by auto
  have second: "\<exists>res s'. out = Inr (res, s') \<and> length res = k + 1
               \<and> (\<forall>x \<in> set res. r_task_id x = task_id t \<and> \<not> success x)
               \<and> retried_tasks s' = retried_tasks s + int k
               \<and> failed_tasks s' = failed_tasks s + int k + 1
               \<and> task_queue s' = []"
    if out: "run_until_complete evs order s = Some out" for evs out
  proof -
    from single_task_exec [OF inv0, of evs] fails
    obtain s2 where s2: "exec evs s0 = Some s2" "single_task t (retried_tasks s) (task_handlers s0) s2"
      by auto
    from out have u: "unfinished_tasks s2 = 0"
      and o: "out = Inr (concat (map (worker_results s2) order),
                          s2 \<lparr> is_running := False, executor := None,
                               results := concat (map (worker_results s2) order) \<rparr>)"
      unfolding run s2(1) by (auto split: if_splits)
    from s2(2) u have fin: "retried_tasks s2 = retried_tasks s + int k" "task_queue s2 = []"
      and allf: "\<forall>w. \<forall>x \<in> set (worker_results s2 w). r_task_id x = task_id t \<and> \<not> success x"
      using task by (auto simp: single_task_def)
    from exec_preserves [OF wf0 s2(1)]
    have led: "ledger s2 = ledger s0" and cfg: "config s2 = config s0" by simp_all
    have nw: "num_workers s2 = num_workers s" using cfg by (simp add: config_def s0_def)
    have "mset (concat (map (worker_results s2) order)) = produced s2"
      unfolding produced_def all_produced_def nw
      by (rule mset_concat_map_perm [OF order])
    then have sz: "size (produced s2) = length (concat (map (worker_results s2) order))"
      and st: "set_mset (produced s2) = set (concat (map (worker_results s2) order))"
      by (metis size_mset, metis set_mset_mset)
    have allp: "\<forall>x \<in># produced s2. \<not> success x"
      unfolding st using allf by auto
    then have fm: "filter_mset (\<lambda>r. \<not> success r) (produced s2) = produced s2"
      by (simp add: filter_mset_eq_conv)
    from led have "unfinished_tasks s2 - retried_tasks s2 + int (size (produced s2))
                 = unfinished_tasks s0 - retried_tasks s0 + int (size (produced s0))"
      and "failed_tasks s2 - int (size (filter_mset (\<lambda>r. \<not> success r) (produced s2)))
                 = failed_tasks s0 - int (size (filter_mset (\<lambda>r. \<not> success r) (produced s0)))"
      by (simp_all add: ledger_def)
    with u fin p0 queue fm have n: "int (size (produced s2)) = int k + 1"
        and f: "failed_tasks s2 = failed_tasks s + int k + 1"
      by (simp_all add: s0_def)
    show ?thesis
      unfolding o using n f fin allf sz by auto
  qed
  from first second show ?thesis by blast
qed

theorem always_failing_task_k_plus_1_results_witness:
  "\<exists>res s'.
     run_until_complete (concat (replicate 3 [Get 0, Finish 0 (1/2) ''Traceback'']))  [1, 0]
       \<lparr> num_workers = 2, max_queue_size = 1000,
         task_queue = [(Task ''task_1'' ''failing_task'' () 0) \<lparr> max_retries := 2 \<rparr>],
         unfinished_tasks = 1, results = [], executor = None,
         total_tasks = 1, completed_tasks = 0, failed_tasks = 0, retried_tasks = 0,
         total_execution_time = 0, is_running = False,
         task_handlers = [''failing_task'' \<mapsto> (\<lambda>p w. (Inl ''Test error'', w))],
         holding = Map.empty, worker_results = (\<lambda>_. []), world = () \<rparr>
       = Some (Inr (res :: unit task_result list, s'))
     \<and> length res = 3 \<and> retried_tasks s' = 2 \<and> failed_tasks s' = 3"
proof -
  let ?t = "(Task ''task_1'' ''failing_task'' () 0) \<lparr> max_retries := 2 \<rparr>"
  let ?h = "(\<lambda>p w. (Inl ''Test error'', w)) :: (unit, unit, unit) handler"
  let ?s = "\<lparr> num_workers = 2, max_queue_size = 1000,
         task_queue = [?t],
         unfinished_tasks = 1, results = [], executor = None,
         total_tasks = 1, completed_tasks = 0, failed_tasks = 0, retried_tasks = 0,
         total_execution_time = 0, is_running = False,
         task_handlers = [''failing_task'' \<mapsto> ?h],
         holding = Map.empty, worker_results = (\<lambda>_. []), world = () \<rparr>"
  have ord: "mset [1, 0] = mset [0 ..< nat (num_workers ?s)]"
    by (simp add: upt_rec)
  have g: "(\<exists>res s'. run_until_complete (concat (replicate (Suc 2) [Get 0, Finish 0 (1/2) ''Traceback''])) [1, 0] ?s
                      = Some (Inr (res, s')))
       \<and> (\<forall>evs out. run_until_complete evs [1, 0] ?s = Some out \<longrightarrow>
            (\<exists>res s'. out = Inr (res, s') \<and> length res = 2 + 1
               \<and> (\<forall>x \<in> set res. r_task_id x = task_id ?t \<and> \<not> success x)
               \<and> retried_tasks s' = retried_tasks ?s + int 2
               \<and> failed_tasks s' = failed_tasks ?s + int 2 + 1
               \<and> task_queue s' = []))"
    by (rule always_failing_task_k_plus_1_results [where h = ?h and order = "[1, 0]", OF _ _ _ _ _ _ _ _ ord])
       (simp_all add: Task_def)
  then obtain res s' where r: "run_until_complete (concat (replicate (Suc 2) [Get 0, Finish 0 (1/2) ''Traceback''])) [1, 0] ?s
                      = Some (Inr (res, s'))"
    by blast
  with g have "length res = 3 \<and> retried_tasks s' = 2 \<and> failed_tasks s' = 3"
    by fastforce
  with r show ?thesis
    by (simp add: numeral_3_eq_3)
qed

subsection \<open>The statistics\<close>

text \<open>
  C5 as stated fails: one task with \<open>max_retries = 1\<close> and a handler that always fails
  is attempted twice, so retried once; \<open>total_tasks\<close> is \<open>1\<close> after the run, not \<open>2\<close>,
  and the retry is counted in \<open>retried_tasks\<close>.
\<close>

theorem total_tasks_not_bumped_by_retry:
  "map_option (map_sum id (\<lambda>(res, s'). (length res, total_tasks s', retried_tasks s')))
     (case add_task ((Task ''task_1'' ''failing_task'' () 0) \<lparr> max_retries := 1 \<rparr>)
             (register_handler ''failing_task'' (\<lambda>p w. (Inl ''Test error'', w))
                (projr (WorkerPool_init 1 1000 () :: py_error + (unit, unit, unit) worker_pool))) of
        None \<Rightarrow> None
      | Some s \<Rightarrow> run_until_complete [Get 0, Finish 0 0 [], Get 0, Finish 0 0 []] [0] s)
   = Some (Inr (2, 1, 1))"
  by (simp add: WorkerPool_init_def register_handler_def add_task_def queue_put_def queue_full_def
      Task_def run_until_complete_def start_def stop_def
      worker_get_def worker_finish_def execute_task_def Let_def)

text \<open>
  C5, amended. \<open>total_tasks\<close> counts the calls of \<^verbatim>\<open>add_task\<close> and nothing else: adding
  the tasks \<open>ts\<close> to a pool with nothing unfinished raises it by the number of the
  tasks, and a run leaves it as it is. The retries are counted in \<open>retried_tasks\<close>: a
  run raises it by the number of attempts beyond one per task, which is the number of
  results less the number of tasks.
\<close>

theorem total_tasks_counts_add_task_calls_only:
  assumes "\<not> is_running p" "0 < num_workers p" "unfinished_tasks p = 0"
    and "add_tasks ts p = Some s"
    and "mset order = mset [0 ..< nat (num_workers p)]"
    and "run_until_complete evs order s = Some (Inr (res, s'))"
  shows "total_tasks s = total_tasks p + int (length ts)
       \<and> total_tasks s' = total_tasks s
       \<and> retried_tasks s' = retried_tasks p + (int (length res) - int (length ts))"
proof -
  note s = add_tasks_fields [OF assms(4)]
  have "\<not> is_running s" "0 < num_workers s" "mset order = mset [0 ..< nat (num_workers s)]"
    using assms(1,2,5) by (simp_all add: s)
  from run_accounting [OF this assms(6)] assms(3) show ?thesis
    by (simp add: s)
qed

theorem total_tasks_counts_add_task_calls_only_witness:
  "\<exists>res s'.
     run_until_complete [Get 0, Finish 0 0 [], Get 0, Finish 0 0 []] [0]
       \<lparr> num_workers = 1, max_queue_size = 1000,
         task_queue = [(Task ''task_1'' ''failing_task'' () 0) \<lparr> max_retries := 1 \<rparr>],
         unfinished_tasks = 1, results = [], executor = None,
         total_tasks = 1, completed_tasks = 0, failed_tasks = 0, retried_tasks = 0,
         total_execution_time = 0, is_running = False,
         task_handlers = [''failing_task'' \<mapsto> (\<lambda>p w. (Inl ''Test error'', w))],
         holding = Map.empty, worker_results = (\<lambda>_. []), world = () \<rparr>
       = Some (Inr (res :: unit task_result list, s'))
     \<and> length res = 2 \<and> total_tasks s' = 1 \<and> retried_tasks s' = 1"
proof -
  let ?t = "(Task ''task_1'' ''failing_task'' () 0) \<lparr> max_retries := 1 \<rparr>"
  let ?p = "\<lparr> num_workers = 1, max_queue_size = 1000, task_queue = [],
         unfinished_tasks = 0, results = [] :: unit task_result list, executor = None,
         total_tasks = 0, completed_tasks = 0, failed_tasks = 0, retried_tasks = 0,
         total_execution_time = 0, is_running = False,
         task_handlers = [''failing_task'' \<mapsto> (\<lambda>p w. (Inl ''Test error'', w))],
         holding = Map.empty :: nat \<rightharpoonup> unit task, worker_results = (\<lambda>_. []), world = () \<rparr>"
  let ?s = "\<lparr> num_workers = 1, max_queue_size = 1000, task_queue = [?t],
         unfinished_tasks = 1, results = [] :: unit task_result list, executor = None,
         total_tasks = 1, completed_tasks = 0, failed_tasks = 0, retried_tasks = 0,
         total_execution_time = 0, is_running = False,
         task_handlers = [''failing_task'' \<mapsto> (\<lambda>p w. (Inl ''Test error'', w))],
         holding = Map.empty :: nat \<rightharpoonup> unit task, worker_results = (\<lambda>_. []), world = () \<rparr>"
  have a: "add_tasks [?t] ?p = Some ?s"
    by (simp add: add_task_def queue_put_def queue_full_def)
  obtain res s' where r:
    "run_until_complete [Get 0, Finish 0 0 [], Get 0, Finish 0 0 []] [0] ?s = Some (Inr (res, s'))"
    "length res = 2"
    by (simp add: run_until_complete_def start_def stop_def Task_def
        worker_get_def worker_finish_def execute_task_def queue_put_def queue_full_def Let_def)
  have "total_tasks s' = 1 \<and> retried_tasks s' = 1"
    using total_tasks_counts_add_task_calls_only [OF _ _ _ a _ r(1)] r(2) by simp
  with r show ?thesis by blast
qed

lemma sum_list_filter_split:
  "sum_list (map f xs) = sum_list (map f (filter P xs)) + sum_list (map f (filter (\<lambda>x. \<not> P x) xs))"
  for f :: "'a \<Rightarrow> real"
  by (induction xs) simp_all

lemma pool_get_stats_avg:
  "avg_execution_time (pool_get_stats q) =
     (if completed_tasks q > 0
      then total_execution_time q / real_of_int (completed_tasks q) else 0)"
  by (simp add: pool_get_stats_def)

text \<open>
  C10. In every state \<open>p\<close>, \<^verbatim>\<open>get_stats\<close> reports \<open>total_execution_time\<close> divided by
  \<open>completed_tasks\<close> when that is positive and \<open>0\<close> otherwise. A run adds the duration
  of every attempt, failed or not, to \<open>total_execution_time\<close> and only the successful
  attempts to \<open>completed_tasks\<close>; so the average reported after the run has the
  durations of the failed attempts in its numerator and not their number in its
  denominator. The witness shows both effects: an average of \<open>3\<close> where the one
  successful attempt took \<open>1\<close>, and an average of \<open>0\<close> with \<open>2\<close> accumulated.
\<close>

theorem avg_execution_time_counts_failed_attempts:
  assumes "\<not> is_running s" "0 < num_workers s"
    and "mset order = mset [0 ..< nat (num_workers s)]"
    and "run_until_complete evs order s = Some (Inr (res, s'))"
  shows "avg_execution_time (pool_get_stats p) =
           (if completed_tasks p > 0
            then total_execution_time p / real_of_int (completed_tasks p) else 0)
       \<and> total_execution_time s' = total_execution_time s + sum_list (map execution_time res)
       \<and> completed_tasks s' = completed_tasks s + int (length (filter success res))
       \<and> avg_execution_time (pool_get_stats s') =
           (if completed_tasks s + int (length (filter success res)) > 0
            then (total_execution_time s
                  + sum_list (map execution_time (filter success res))
                  + sum_list (map execution_time (filter (\<lambda>r. \<not> success r) res)))
                 / real_of_int (completed_tasks s + int (length (filter success res)))
            else 0)"
proof -
  from run_accounting [OF assms]
  have t: "total_execution_time s' = total_execution_time s + sum_list (map execution_time res)"
    and c: "completed_tasks s' = completed_tasks s + int (length (filter success res))"
    by simp_all
  show ?thesis
    unfolding pool_get_stats_avg t c
    using sum_list_filter_split [of execution_time res success]
    by (simp add: add.assoc)
qed

theorem avg_execution_time_counts_failed_attempts_witness:
  "(\<exists>res s'.
     run_until_complete [Get 0, Finish 0 2 [], Get 1, Finish 1 1 []] [1, 0]
       \<lparr> num_workers = 2, max_queue_size = 1000,
         task_queue = [Task ''task_1'' ''flaky'' () 0],
         unfinished_tasks = 1, results = [], executor = None,
         total_tasks = 1, completed_tasks = 0, failed_tasks = 0, retried_tasks = 0,
         total_execution_time = 0, is_running = False,
         task_handlers = [''flaky'' \<mapsto> (\<lambda>p w. (if w = 0 then Inl ''Test error'' else Inr (), Suc w))],
         holding = Map.empty, worker_results = (\<lambda>_. []), world = (0 :: nat) \<rparr>
       = Some (Inr (res :: unit task_result list, s'))
     \<and> map success res = [True, False]
     \<and> map execution_time res = [1, 2]
     \<and> avg_execution_time (pool_get_stats s') = 3)
   \<and> (\<exists>res s'.
     run_until_complete [Get 0, Finish 0 2 []] [0]
       \<lparr> num_workers = 1, max_queue_size = 1000,
         task_queue = [(Task ''task_1'' ''failing_task'' () 0) \<lparr> max_retries := 0 \<rparr>],
         unfinished_tasks = 1, results = [], executor = None,
         total_tasks = 1, completed_tasks = 0, failed_tasks = 0, retried_tasks = 0,
         total_execution_time = 0, is_running = False,
         task_handlers = [''failing_task'' \<mapsto> (\<lambda>p w. (Inl ''Test error'', w))],
         holding = Map.empty, worker_results = (\<lambda>_. []), world = () \<rparr>
       = Some (Inr (res :: unit task_result list, s'))
     \<and> map success res = [False]
     \<and> total_execution_time s' = 2
     \<and> avg_execution_time (pool_get_stats s') = 0)"
proof -
  let ?s1 = "\<lparr> num_workers = 2, max_queue_size = 1000,
         task_queue = [Task ''task_1'' ''flaky'' () 0],
         unfinished_tasks = 1, results = [] :: unit task_result list, executor = None,
         total_tasks = 1, completed_tasks = 0, failed_tasks = 0, retried_tasks = 0,
         total_execution_time = 0, is_running = False,
         task_handlers = [''flaky'' \<mapsto> (\<lambda>p w. (if w = 0 then Inl ''Test error'' else Inr (), Suc w))],
         holding = Map.empty, worker_results = (\<lambda>_. []), world = (0 :: nat) \<rparr>"
  let ?s2 = "\<lparr> num_workers = 1, max_queue_size = 1000,
         task_queue = [(Task ''task_1'' ''failing_task'' () 0) \<lparr> max_retries := 0 \<rparr>],
         unfinished_tasks = 1, results = [] :: unit task_result list, executor = None,
         total_tasks = 1, completed_tasks = 0, failed_tasks = 0, retried_tasks = 0,
         total_execution_time = 0, is_running = False,
         task_handlers = [''failing_task'' \<mapsto> (\<lambda>p w. (Inl ''Test error'', w))],
         holding = Map.empty, worker_results = (\<lambda>_. []), world = () \<rparr>"
  obtain res1 s1' where r1:
    "run_until_complete [Get 0, Finish 0 2 [], Get 1, Finish 1 1 []] [1, 0] ?s1 = Some (Inr (res1, s1'))"
    "map success res1 = [True, False]" "map execution_time res1 = [1, 2]"
    by (simp add: run_until_complete_def start_def stop_def Task_def
        worker_get_def worker_finish_def execute_task_def queue_put_def queue_full_def Let_def)
  obtain res2 s2' where r2:
    "run_until_complete [Get 0, Finish 0 2 []] [0] ?s2 = Some (Inr (res2, s2'))"
    "map success res2 = [False]" "map execution_time res2 = [2]"
    by (simp add: run_until_complete_def start_def stop_def Task_def
        worker_get_def worker_finish_def execute_task_def queue_put_def queue_full_def Let_def)
  have o1: "mset [1, 0] = mset [0 ..< nat (num_workers ?s1)]" by (simp add: upt_rec)
  have o2: "mset [0] = mset [0 ..< nat (num_workers ?s2)]" by simp
  from r1(2,3) obtain a b where res1: "res1 = [a, b]" "success a" "\<not> success b"
      "execution_time a = 1" "execution_time b = 2"
    by (cases res1; cases "tl res1") auto
  from r2(2,3) obtain c where res2: "res2 = [c]" "\<not> success c" "execution_time c = 2"
    by (cases res2) auto
  have a1: "avg_execution_time (pool_get_stats s1') = 3"
    using avg_execution_time_counts_failed_attempts [OF _ _ o1 r1(1), of s1'] res1
    by simp
  have a2: "total_execution_time s2' = 2 \<and> avg_execution_time (pool_get_stats s2') = 0"
    using avg_execution_time_counts_failed_attempts [OF _ _ o2 r2(1), of s2'] res2
    by simp
  show ?thesis
  proof (rule conjI)
    show "\<exists>res s'.
       run_until_complete [Get 0, Finish 0 2 [], Get 1, Finish 1 1 []] [1, 0] ?s1
         = Some (Inr (res, s'))
       \<and> map success res = [True, False]
       \<and> map execution_time res = [1, 2]
       \<and> avg_execution_time (pool_get_stats s') = 3"
      using r1 a1 by (intro exI [of _ res1] exI [of _ s1'] conjI)
    show "\<exists>res s'.
       run_until_complete [Get 0, Finish 0 2 []] [0] ?s2 = Some (Inr (res, s'))
       \<and> map success res = [False]
       \<and> total_execution_time s' = 2
       \<and> avg_execution_time (pool_get_stats s') = 0"
      using r2(1,2) a2 by (intro exI [of _ res2] exI [of _ s2'] conjI) simp_all
  qed
qed

section \<open>Properties of the coordinator\<close>

lemma length_ingest_tasks: "length (ingest_tasks created cn xs) = length xs"
  by (simp add: ingest_tasks_def)

lemma nth_ingest_tasks:
  assumes "i < length xs"
  shows "ingest_tasks created cn xs ! i =
           Task (cn @ ''_'' @ str_nat i) ''ingest'' \<lparr> item = xs ! i, collection = cn \<rparr> (created i)"
  using assms by (simp add: ingest_tasks_def nth_enumerate_eq)

text \<open>
  C6 as stated fails: two calls with different processors on one coordinator. After
  each call the pool has exactly one task type registered, \<^verbatim>\<open>"ingest"\<close>: the second
  processor has replaced the first under the same type.
\<close>

theorem ingest_calls_share_one_task_type:
  "(case ingest_collection [Get 0, Finish 0 0 []] [0] (\<lambda>_. 0) ''bills'' [7 :: nat]
          (\<lambda>p w. (Inr (1 :: nat), w))
          (DistributedIngestionCoordinator_init (projr (WorkerPool_init 1 1000 ()))) of
      Some (Inr (res1, c1)) \<Rightarrow>
        (case ingest_collection [Get 0, Finish 0 0 []] [0] (\<lambda>_. 0) ''votes'' [8]
                (\<lambda>p w. (Inr 2, w)) c1 of
           Some (Inr (res2, c2)) \<Rightarrow>
             dom (task_handlers (worker_pool c1)) = {''ingest''}
             \<and> dom (task_handlers (worker_pool c2)) = {''ingest''}
             \<and> map r_task_id res1 = [''bills_0''] \<and> map data res1 = [Some 1]
             \<and> map r_task_id res2 = [''votes_0''] \<and> map data res2 = [Some 2]
         | _ \<Rightarrow> False)
    | _ \<Rightarrow> False)"
  by (simp add: ingest_collection_def ingest_tasks_def DistributedIngestionCoordinator_init_def
      WorkerPool_init_def register_handler_def add_task_def queue_put_def queue_full_def
      Task_def run_until_complete_def start_def stop_def str_nat.simps digit_char_def
      worker_get_def worker_finish_def execute_task_def Let_def enumerate_eq_zip)

text \<open>
  C6, amended. Every call of \<^verbatim>\<open>ingest_collection\<close> that returns has registered its
  processor under the fixed task type \<^verbatim>\<open>"ingest"\<close>, in place of whatever was registered
  under it, and has left the other handlers alone. It has put one task per item at
  the end of the queue, in the order of the items; the task of item \<open>i\<close> has the
  \<open>task_id\<close> \<open>collection_name\<close>, \<^verbatim>\<open>"_"\<close> and the decimal digits of \<open>i\<close>, the task type
  \<^verbatim>\<open>"ingest"\<close>, and the item and the collection name as params.
\<close>

theorem ingest_registers_under_fixed_type:
  assumes "ingest_collection evs order created cn xs processor c = Some (Inr (res, c'))"
  shows "task_handlers (worker_pool c') = (task_handlers (worker_pool c))(''ingest'' \<mapsto> processor)
       \<and> (\<exists>p2. add_tasks (ingest_tasks created cn xs)
                  (register_handler ''ingest'' processor (worker_pool c)) = Some p2
               \<and> task_queue p2 = task_queue (worker_pool c) @ ingest_tasks created cn xs)
       \<and> length (ingest_tasks created cn xs) = length xs
       \<and> (\<forall>i < length xs.
             task_id (ingest_tasks created cn xs ! i) = cn @ ''_'' @ str_nat i
           \<and> task_type (ingest_tasks created cn xs ! i) = ''ingest''
           \<and> params (ingest_tasks created cn xs ! i) = \<lparr> item = xs ! i, collection = cn \<rparr>)"
proof -
  from assms obtain p2 p3 where
    p2: "add_tasks (ingest_tasks created cn xs)
           (register_handler ''ingest'' processor (worker_pool c)) = Some p2"
    and p3: "run_until_complete evs order p2 = Some (Inr (res, p3))"
    and c': "worker_pool c' = p3"
    by (auto simp: ingest_collection_def Let_def split: option.splits sum.splits)
  note f = add_tasks_fields [OF p2]
  have "task_handlers p3 = task_handlers p2" by (rule run_until_complete_handlers [OF p3])
  also have "\<dots> = (task_handlers (worker_pool c))(''ingest'' \<mapsto> processor)"
    by (subst f) (simp add: register_handler_def)
  finally have h: "task_handlers (worker_pool c') = (task_handlers (worker_pool c))(''ingest'' \<mapsto> processor)"
    by (simp add: c')
  have q: "task_queue p2 = task_queue (worker_pool c) @ ingest_tasks created cn xs"
    by (subst f) (simp add: register_handler_def)
  show ?thesis
    using h p2 q by (simp add: length_ingest_tasks nth_ingest_tasks Task_def)
qed

theorem ingest_registers_under_fixed_type_witness:
  "\<exists>res c'.
     ingest_collection [Get 0, Finish 0 0 []] [0] (\<lambda>_. 0) ''bills'' [7 :: nat]
          (\<lambda>p w. (Inr (1 :: nat), w))
          (DistributedIngestionCoordinator_init (projr (WorkerPool_init 1 1000 ())))
       = Some (Inr (res, c'))
     \<and> task_handlers (worker_pool c') ''ingest'' = Some (\<lambda>p w. (Inr 1, w))
     \<and> task_id (ingest_tasks (\<lambda>_. 0) ''bills'' [7 :: nat] ! 0) = ''bills_0''"
proof -
  obtain res c' where r:
    "ingest_collection [Get 0, Finish 0 0 []] [0] (\<lambda>_. 0) ''bills'' [7 :: nat]
          (\<lambda>p w. (Inr (1 :: nat), w))
          (DistributedIngestionCoordinator_init (projr (WorkerPool_init 1 1000 ())))
       = Some (Inr (res, c'))"
    by (simp add: ingest_collection_def ingest_tasks_def DistributedIngestionCoordinator_init_def
      WorkerPool_init_def register_handler_def add_task_def queue_put_def queue_full_def
      Task_def run_until_complete_def start_def stop_def str_nat.simps digit_char_def
      worker_get_def worker_finish_def execute_task_def Let_def enumerate_eq_zip)
  from ingest_registers_under_fixed_type [OF r]
  have "task_handlers (worker_pool c') ''ingest'' = Some (\<lambda>p w. (Inr 1, w))
     \<and> task_id (ingest_tasks (\<lambda>_. 0) ''bills'' [7 :: nat] ! 0) = ''bills_0''"
    by (simp add: str_nat.simps digit_char_def)
  with r show ?thesis by blast
qed

end
